theory Spec2Isabelle
  imports Complex_Main
begin

section \<open>JavaScript numbers\<close>

text \<open>
  The component computes with JavaScript numbers. They are modelled as exact reals extended
  with the three non-finite values a division can produce. Rounding, overflow and the sign
  of zero are not modelled: a zero divisor is treated as positive zero.
\<close>

datatype jsnum = Fin real | PInf | NInf | NaN

definition js_inf :: "real \<Rightarrow> jsnum" where
  "js_inf s = (if 0 < s then PInf else if s < 0 then NInf else NaN)"

fun js_sgn :: "jsnum \<Rightarrow> real" where
  "js_sgn (Fin x) = sgn x"
| "js_sgn PInf = 1"
| "js_sgn NInf = - 1"
| "js_sgn NaN = 0"

fun js_neg :: "jsnum \<Rightarrow> jsnum" where
  "js_neg (Fin x) = Fin (- x)"
| "js_neg PInf = NInf"
| "js_neg NInf = PInf"
| "js_neg NaN = NaN"

fun js_add :: "jsnum \<Rightarrow> jsnum \<Rightarrow> jsnum" where
  "js_add NaN b = NaN"
| "js_add a NaN = NaN"
| "js_add (Fin x) (Fin y) = Fin (x + y)"
| "js_add PInf NInf = NaN"
| "js_add NInf PInf = NaN"
| "js_add PInf b = PInf"
| "js_add NInf b = NInf"
| "js_add (Fin x) b = b"

definition js_sub :: "jsnum \<Rightarrow> jsnum \<Rightarrow> jsnum" where
  "js_sub a b = js_add a (js_neg b)"

fun js_mul :: "jsnum \<Rightarrow> jsnum \<Rightarrow> jsnum" where
  "js_mul NaN b = NaN"
| "js_mul a NaN = NaN"
| "js_mul (Fin x) (Fin y) = Fin (x * y)"
| "js_mul a b = js_inf (js_sgn a * js_sgn b)"

fun js_div :: "jsnum \<Rightarrow> jsnum \<Rightarrow> jsnum" where
  "js_div NaN b = NaN"
| "js_div a NaN = NaN"
| "js_div (Fin x) (Fin y) = (if y = 0 then js_inf (sgn x) else Fin (x / y))"
| "js_div (Fin x) b = Fin 0"
| "js_div a (Fin y) = js_inf (js_sgn a * (if y < 0 then - 1 else 1))"
| "js_div a b = NaN"

fun js_lt :: "jsnum \<Rightarrow> jsnum \<Rightarrow> bool" where
  "js_lt NaN b = False"
| "js_lt a NaN = False"
| "js_lt (Fin x) (Fin y) = (x < y)"
| "js_lt PInf b = False"
| "js_lt a NInf = False"
| "js_lt a b = True"

definition js_gt :: "jsnum \<Rightarrow> jsnum \<Rightarrow> bool" where
  "js_gt a b = js_lt b a"

text \<open>The order of the numbers proper: false as soon as one side is \<open>NaN\<close>.\<close>

definition js_le :: "jsnum \<Rightarrow> jsnum \<Rightarrow> bool" where
  "js_le a b = (a \<noteq> NaN \<and> b \<noteq> NaN \<and> \<not> js_lt b a)"

definition Math_min :: "jsnum \<Rightarrow> jsnum \<Rightarrow> jsnum" where
  "Math_min a b = (if a = NaN \<or> b = NaN then NaN else if js_lt b a then b else a)"

definition Math_max :: "jsnum \<Rightarrow> jsnum \<Rightarrow> jsnum" where
  "Math_max a b = (if a = NaN \<or> b = NaN then NaN else if js_lt a b then b else a)"

fun Math_sin :: "jsnum \<Rightarrow> jsnum" where
  "Math_sin (Fin x) = Fin (sin x)"
| "Math_sin a = NaN"

definition Math_PI :: jsnum where
  "Math_PI = Fin pi"

fun is_finite :: "jsnum \<Rightarrow> bool" where
  "is_finite (Fin x) = True"
| "is_finite a = False"

section \<open>Data model\<close>

text \<open>
  A property that may be missing from an object (\<open>undefined\<close>) is an option; the empty
  string and \<open>undefined\<close> are the falsy values of such a property.
\<close>

definition falsy :: "string option \<Rightarrow> bool" where
  "falsy s = (s = None \<or> s = Some '''')"

definition show_str :: "string option \<Rightarrow> string" where
  "show_str s = (case s of None \<Rightarrow> ''undefined'' | Some t \<Rightarrow> t)"

record location =
  name :: string
  coordinates :: "jsnum list"

record arc =
  source :: "string option"
  target :: "string option"
  label :: "string option"
  color :: "string option"

text \<open>
  The projection object of the geographic library, reduced to the state the component
  reads and writes: the two rotation angles in degrees, the scale and the translation. The
  angles are kept as they are passed; the library's reduction of an angle modulo 360 degrees
  is not modelled.
\<close>

record projection =
  rotate_p :: "jsnum \<times> jsnum"
  scale_p :: jsnum
  translate_p :: "jsnum \<times> jsnum"

text \<open>
  The component: its two reactive lists, the projection, the scale extent of the zoom
  behaviour, the measured size of the host element (a non-negative number of pixels), what
  the last render pass left in the SVG element (the point groups, and for each arc item
  whether its path has data), and the warnings written to the console.
\<close>

record globe =
  locations :: "location list"
  arcs :: "arc list"
  projection :: projection
  scaleExtent :: "jsnum \<times> jsnum"
  offsetWidth :: nat
  offsetHeight :: nat
  svg_points :: "location list"
  svg_arcs :: "(arc \<times> bool) list"
  console :: "string list"

definition warn :: "string \<Rightarrow> globe \<Rightarrow> globe" where
  "warn msg st = st\<lparr>console := console st @ [msg]\<rparr>"

section \<open>The geographic library\<close>

text \<open>Reading an array element: \<open>undefined\<close> beyond the end.\<close>

definition coord :: "jsnum list \<Rightarrow> nat \<Rightarrow> jsnum option" where
  "coord cs i = (if i < length cs then Some (cs ! i) else None)"

definition fin_of :: "jsnum option \<Rightarrow> real option" where
  "fin_of v = (case v of Some (Fin x) \<Rightarrow> Some x | _ \<Rightarrow> None)"

text \<open>
  Modelled from the spec: \<open>d3.geoDistance\<close> belongs to the external geographic library and
  is not part of the repository. The spec's glossary gives its meaning: the great-circle
  separation of two coordinates \<open>[longitude, latitude]\<close>, given in degrees, as an angle in
  radians. \<open>radians\<close> is the factor from degrees to radians.
\<close>

definition radians :: real where
  "radians = pi / 180"

text \<open>
  Modelled from the spec: the great-circle separation of the points with longitude and
  latitude \<open>(l0, p0)\<close> and \<open>(l1, p1)\<close>, by the spherical law of cosines.
\<close>

definition great_circle :: "real \<Rightarrow> real \<Rightarrow> real \<Rightarrow> real \<Rightarrow> real" where
  "great_circle l0 p0 l1 p1 =
     arccos (sin (p0 * radians) * sin (p1 * radians)
             + cos (p0 * radians) * cos (p1 * radians) * cos ((l1 - l0) * radians))"

text \<open>
  Modelled from the spec: \<open>d3.geoDistance(a, b)\<close> on two arrays reads their first two elements;
  a missing or non-finite coordinate makes the result \<open>NaN\<close>.
\<close>

definition geoDistance :: "jsnum list \<Rightarrow> jsnum list \<Rightarrow> jsnum" where
  "geoDistance a b =
     (case fin_of (coord a 0) of None \<Rightarrow> NaN | Some l0 \<Rightarrow>
     (case fin_of (coord a 1) of None \<Rightarrow> NaN | Some p0 \<Rightarrow>
     (case fin_of (coord b 0) of None \<Rightarrow> NaN | Some l1 \<Rightarrow>
     (case fin_of (coord b 1) of None \<Rightarrow> NaN | Some p1 \<Rightarrow>
        Fin (great_circle l0 p0 l1 p1)))))"

section \<open>Rendering\<close>

text \<open>The centre of the view: \<open>[-rotate[0], -rotate[1]]\<close>.\<close>

definition view_center :: "globe \<Rightarrow> jsnum list" where
  "view_center st = [js_neg (fst (rotate_p (projection st))), js_neg (snd (rotate_p (projection st)))]"

definition highlight_location :: "globe \<Rightarrow> location \<Rightarrow> globe" where
  "highlight_location st loc =
     (case coord (coordinates loc) 0 of
        None \<Rightarrow> warn (''Invalid coordinates for location: '' @ name loc) st
      | Some lon \<Rightarrow>
     (case coord (coordinates loc) 1 of
        None \<Rightarrow> warn (''Invalid coordinates for location: '' @ name loc) st
      | Some lat \<Rightarrow>
          (let angle = geoDistance [lon, lat] (view_center st)
           in if js_lt angle (js_div Math_PI (Fin 2))
              then st\<lparr>svg_points := svg_points st @ [loc]\<rparr>
              else st)))"

definition highlightPoints :: "globe \<Rightarrow> globe" where
  "highlightPoints st = foldl highlight_location (st\<lparr>svg_points := []\<rparr>) (locations st)"

definition find_location :: "location list \<Rightarrow> string option \<Rightarrow> location option" where
  "find_location locs n = List.find (\<lambda>loc. Some (name loc) = n) locs"

text \<open>
  \<open>this.path(this.createArc(source, target))\<close> asks the path generator of the library, which
  is not part of the repository, for the path of the arc. It has path data for an arc whose
  end points both have two finite coordinates, and yields \<open>null\<close> when a coordinate of an end
  point is missing or is not a finite number.
\<close>

definition finite_point :: "jsnum list \<Rightarrow> bool" where
  "finite_point cs = (fin_of (coord cs 0) \<noteq> None \<and> fin_of (coord cs 1) \<noteq> None)"

definition path_data :: "jsnum list \<Rightarrow> jsnum list \<Rightarrow> bool" where
  "path_data a b = (finite_point a \<and> finite_point b)"

definition draw_arc :: "globe \<Rightarrow> arc \<Rightarrow> globe" where
  "draw_arc st d =
     (case find_location (locations st) (source d) of
        None \<Rightarrow> warn (''Arc source or target not found: '' @ show_str (label d))
                  (st\<lparr>svg_arcs := svg_arcs st @ [(d, False)]\<rparr>)
      | Some sourceLoc \<Rightarrow>
     (case find_location (locations st) (target d) of
        None \<Rightarrow> warn (''Arc source or target not found: '' @ show_str (label d))
                  (st\<lparr>svg_arcs := svg_arcs st @ [(d, False)]\<rparr>)
      | Some targetLoc \<Rightarrow>
          (let sourceAngle = geoDistance (coordinates sourceLoc) (view_center st);
               targetAngle = geoDistance (coordinates targetLoc) (view_center st)
           in if js_gt sourceAngle (js_div Math_PI (Fin 2)) \<or> js_gt targetAngle (js_div Math_PI (Fin 2))
              then st\<lparr>svg_arcs := svg_arcs st @ [(d, False)]\<rparr>
              else st\<lparr>svg_arcs := svg_arcs st @
                     [(d, path_data (coordinates sourceLoc) (coordinates targetLoc))]\<rparr>)))"

definition drawArcs :: "globe \<Rightarrow> globe" where
  "drawArcs st = foldl draw_arc (st\<lparr>svg_arcs := []\<rparr>) (arcs st)"

definition updateProjection :: "globe \<Rightarrow> globe" where
  "updateProjection st = drawArcs (highlightPoints st)"

section \<open>Zoom\<close>

text \<open>
  \<open>handleZoom\<close> receives the zoom event; \<open>k\<close> is \<open>event.transform.k\<close>.
\<close>

definition handleZoom :: "jsnum \<Rightarrow> globe \<Rightarrow> globe" where
  "handleZoom k st =
     (let clampedScale = Math_max (fst (scaleExtent st)) (Math_min k (snd (scaleExtent st)))
      in updateProjection (st\<lparr>projection := (projection st)\<lparr>scale_p := clampedScale\<rparr>\<rparr>))"

text \<open>
  \<open>setZoom\<close> hands the transform of scale \<open>zoomLevel\<close> to the zoom behaviour, which does
  not constrain a transform set this way and delivers it to the registered handler in a
  zoom event. The frames of the 750 ms transition before the last one are not modelled.
\<close>

definition setZoom :: "jsnum \<Rightarrow> globe \<Rightarrow> globe" where
  "setZoom zoomLevel st = handleZoom zoomLevel st"

definition getZoom :: "globe \<Rightarrow> jsnum" where
  "getZoom st = scale_p (projection st)"

section \<open>Fit to view\<close>

definition max_step :: "jsnum list \<Rightarrow> jsnum \<Rightarrow> jsnum list \<Rightarrow> jsnum" where
  "max_step centroid maxDistance c =
     (let distance = geoDistance centroid c
      in if js_gt distance maxDistance then distance else maxDistance)"

definition raw_maxDistance :: "jsnum list \<Rightarrow> jsnum list list \<Rightarrow> jsnum" where
  "raw_maxDistance centroid cs = foldl (max_step centroid) (Fin 0) cs"

definition requiredScale :: "globe \<Rightarrow> jsnum \<Rightarrow> jsnum" where
  "requiredScale st maxDistance =
     (let marginFactor = Fin 0.8;
          radius = js_div (Fin (real (min (offsetWidth st) (offsetHeight st)))) (Fin 2)
      in js_div (js_mul marginFactor radius) (Math_sin maxDistance))"

text \<open>
  \<open>d3.geoCentroid\<close> is a function of the external geographic library; the component only
  uses its result as the point to centre on and to measure from, so it is a parameter
  \<open>geoCentroid\<close> of the model, from the coordinates of the features to a pair of degrees.
  The last statement of the function sets the transform of the zoom behaviour to the
  projection's scale, which the behaviour reports to \<open>handleZoom\<close> in a zoom event.
\<close>

definition adjustProjectionToFitLocations ::
    "(jsnum list list \<Rightarrow> jsnum \<times> jsnum) \<Rightarrow> globe \<Rightarrow> globe" where
  "adjustProjectionToFitLocations geoCentroid st =
     (if length (locations st) = 0 then st
      else
        let features = map coordinates (locations st);
            centroid = geoCentroid features;
            maxDistance = raw_maxDistance [fst centroid, snd centroid] features;
            maxDistance = Math_min maxDistance (js_div Math_PI (Fin 2));
            finalScale = requiredScale st maxDistance;
            st1 = st\<lparr>projection := (projection st)
                       \<lparr>rotate_p := (js_neg (fst centroid), js_neg (snd centroid)),
                        scale_p := finalScale\<rparr>\<rparr>;
            minScale = js_div finalScale (Fin 10);
            maxScale = js_mul finalScale (Fin 3);
            st2 = st1\<lparr>scaleExtent := (minScale, maxScale)\<rparr>;
            st3 = highlightPoints (drawArcs st2)
        in handleZoom (scale_p (projection st3)) st3)"

section \<open>Drag to rotate\<close>

text \<open>
  The two handlers registered by \<open>makeGlobeDraggable\<close>. The variable \<open>startRotate\<close> of the
  enclosing function is passed in and returned; an event is its pointer position.
\<close>

definition drag_start :: "jsnum \<times> jsnum \<Rightarrow> jsnum \<times> jsnum" where
  "drag_start event = (fst event, snd event)"

definition drag_move :: "jsnum \<times> jsnum \<Rightarrow> jsnum \<times> jsnum \<Rightarrow> globe \<Rightarrow> (jsnum \<times> jsnum) \<times> globe" where
  "drag_move startRotate event st =
     (let dx = js_sub (fst event) (fst startRotate);
          dy = js_sub (snd event) (snd startRotate);
          rotation = rotate_p (projection st);
          currentZoom = getZoom st;
          rotationFactor = js_div (Fin 100) currentZoom;
          st1 = st\<lparr>projection := (projection st)
                     \<lparr>rotate_p := (js_add (fst rotation) (js_mul (js_div dx (Fin 2)) rotationFactor),
                                   js_sub (snd rotation) (js_mul (js_div dy (Fin 2)) rotationFactor))\<rparr>\<rparr>
      in ((fst event, snd event), drawArcs (highlightPoints st1)))"

section \<open>Changing the overlays\<close>

text \<open>
  The public operations return when their last statement has run. The update cycle that the
  component framework schedules after an assignment to \<open>locations\<close> or \<open>arcs\<close> runs later and
  is not part of them.

  The argument of \<open>addLocation\<close> is \<open>None\<close> when it is falsy or when its \<open>coordinates\<close> is
  not an array; both take the same branch.
\<close>

definition addLocation :: "location option \<Rightarrow> globe \<Rightarrow> globe" where
  "addLocation location st =
     (case location of
        None \<Rightarrow> warn ''Invalid location format:'' st
      | Some loc \<Rightarrow>
          if length (coordinates loc) = 2 then
            (let lon = coordinates loc ! 0; lat = coordinates loc ! 1
             in if js_lt lon (Fin (- 180)) \<or> js_gt lon (Fin 180)
                   \<or> js_lt lat (Fin (- 90)) \<or> js_gt lat (Fin 90)
                then warn ''Invalid longitude or latitude values:'' st
                else st\<lparr>locations := locations st @ [loc]\<rparr>)
          else warn ''Invalid location format:'' st)"

definition removeLocation :: "string \<Rightarrow> globe \<Rightarrow> globe" where
  "removeLocation n st =
     (let st1 = st\<lparr>locations := filter (\<lambda>loc. name loc \<noteq> n) (locations st)\<rparr>
      in st1\<lparr>arcs := filter (\<lambda>arc. source arc \<noteq> Some n \<and> target arc \<noteq> Some n) (arcs st1)\<rparr>)"

definition addArc :: "(jsnum list list \<Rightarrow> jsnum \<times> jsnum) \<Rightarrow> arc \<Rightarrow> globe \<Rightarrow> globe" where
  "addArc geoCentroid arc st =
     (if falsy (source arc) \<or> falsy (target arc) \<or> falsy (label arc)
      then warn ''Arc must have source, target, and label:'' st
      else
        let sourceLoc = find_location (locations st) (source arc);
            targetLoc = find_location (locations st) (target arc)
        in if sourceLoc = None \<or> targetLoc = None
           then warn ''Source or target location not found for arc:'' st
           else
             let existingArc = List.find (\<lambda>a. label a = label arc) (arcs st)
             in if existingArc \<noteq> None
                then warn ''Arc with the same label already exists:'' st
                else adjustProjectionToFitLocations geoCentroid
                       (st\<lparr>arcs := arcs st @
                          [\<lparr>source = source arc, target = target arc,
                            label = label arc, color = color arc\<rparr>]\<rparr>))"

definition removeArc :: "string \<Rightarrow> globe \<Rightarrow> globe" where
  "removeArc l st = st\<lparr>arcs := filter (\<lambda>arc. label arc \<noteq> Some l) (arcs st)\<rparr>"

text \<open>
  \<open>findIndex\<close>: the position of the first element satisfying the predicate. (JavaScript
  returns -1 when there is none; \<open>updateArc\<close> calls it only after it has found one.)
\<close>

definition findIndex :: "('a \<Rightarrow> bool) \<Rightarrow> 'a list \<Rightarrow> nat" where
  "findIndex P xs = length (takeWhile (\<lambda>x. \<not> P x) xs)"

definition updateArc :: "string \<Rightarrow> string \<Rightarrow> string option \<Rightarrow> string option \<Rightarrow> globe \<Rightarrow> globe" where
  "updateArc src tgt newColor newLabel st =
     (let matchingArcs = filter (\<lambda>arc. source arc = Some src \<and> target arc = Some tgt) (arcs st)
      in if length matchingArcs = 0
         then warn (''No arc found between \"'' @ src @ ''\" and \"'' @ tgt @ ''\".'') st
         else if length matchingArcs > 1
         then warn (''Multiple arcs found between \"'' @ src @ ''\" and \"'' @ tgt @ ''\".'') st
         else
           let arcIndex = findIndex (\<lambda>arc. source arc = Some src \<and> target arc = Some tgt) (arcs st);
               st1 = st\<lparr>arcs := (arcs st)[arcIndex := (arcs st ! arcIndex)\<lparr>color := newColor\<rparr>]\<rparr>;
               st2 = st1\<lparr>arcs := (arcs st1)[arcIndex := (arcs st1 ! arcIndex)\<lparr>label := newLabel\<rparr>]\<rparr>
           in drawArcs st2)"

section \<open>Notions used in the statements\<close>

text \<open>
  What a render pass decides for a location and for an arc, as predicates: the point of a
  location is shown when the location has two coordinates at an angle less than \<open>pi / 2\<close>
  from the view centre; the path of an arc is shown when both its locations are found,
  neither of their angles is greater than \<open>pi / 2\<close>, and the path generator has data for it.
\<close>

definition point_shown :: "globe \<Rightarrow> location \<Rightarrow> bool" where
  "point_shown st loc = (2 \<le> length (coordinates loc) \<and>
      js_lt (geoDistance [coordinates loc ! 0, coordinates loc ! 1] (view_center st)) (Fin (pi / 2)))"

definition arc_shown :: "globe \<Rightarrow> arc \<Rightarrow> bool" where
  "arc_shown st d =
     (case find_location (locations st) (source d) of None \<Rightarrow> False
      | Some s \<Rightarrow> (case find_location (locations st) (target d) of None \<Rightarrow> False
      | Some t \<Rightarrow> \<not> js_gt (geoDistance (coordinates s) (view_center st)) (Fin (pi / 2))
                 \<and> \<not> js_gt (geoDistance (coordinates t) (view_center st)) (Fin (pi / 2))
                 \<and> path_data (coordinates s) (coordinates t)))"

text \<open>The locations and arcs a render pass warns about.\<close>

definition bad_coordinates :: "location \<Rightarrow> bool" where
  "bad_coordinates loc = (length (coordinates loc) < 2)"

definition dangling :: "location list \<Rightarrow> arc \<Rightarrow> bool" where
  "dangling locs d = (find_location locs (source d) = None \<or> find_location locs (target d) = None)"

text \<open>
  A number lies within \<open>[lo, hi]\<close>; a number lies outside it. \<open>NaN\<close> is not a number and does
  neither.
\<close>

definition in_range :: "real \<Rightarrow> real \<Rightarrow> jsnum \<Rightarrow> bool" where
  "in_range lo hi x = (js_le (Fin lo) x \<and> js_le x (Fin hi))"

definition outside :: "real \<Rightarrow> real \<Rightarrow> jsnum \<Rightarrow> bool" where
  "outside lo hi x = (x \<noteq> NaN \<and> \<not> in_range lo hi x)"

text \<open>No two arcs of the list carry the same label.\<close>

definition labels_distinct :: "globe \<Rightarrow> bool" where
  "labels_distinct st = distinct (map label (arcs st))"

text \<open>
  The conditions under which an arc may be added: source, target and label are present, both
  locations exist, and the label is not in use.
\<close>

definition arc_accepted :: "arc \<Rightarrow> globe \<Rightarrow> bool" where
  "arc_accepted arc st =
     (\<not> falsy (source arc) \<and> \<not> falsy (target arc) \<and> \<not> falsy (label arc)
      \<and> (\<exists>loc \<in> set (locations st). Some (name loc) = source arc)
      \<and> (\<exists>loc \<in> set (locations st). Some (name loc) = target arc)
      \<and> (\<forall>a \<in> set (arcs st). label a \<noteq> label arc))"

text \<open>
  The component as its constructor and \<open>setupGlobe\<close> leave it in a host element of 400 by 400
  pixels, before the first fit: the default locations and arc, the view centred on Zurich,
  the scale 200 and the scale extent from 20 to 600.
\<close>

definition default_locations :: "location list" where
  "default_locations =
     [\<lparr>name = ''Paris'', coordinates = [Fin 2.3488, Fin 48.8534]\<rparr>,
      \<lparr>name = ''London'', coordinates = [Fin (- 0.1257), Fin 51.5085]\<rparr>,
      \<lparr>name = ''Milan'', coordinates = [Fin 9.1895, Fin 45.4643]\<rparr>,
      \<lparr>name = ''Zurich'', coordinates = [Fin 8.55, Fin 47.3667]\<rparr>,
      \<lparr>name = ''Frankfurt'', coordinates = [Fin 8.6842, Fin 50.1155]\<rparr>]"

definition default_arcs :: "arc list" where
  "default_arcs =
     [\<lparr>source = Some ''Zurich'', target = Some ''Paris'', label = Some ''Zurich-Paris'',
       color = Some ''green''\<rparr>]"

definition default_globe :: globe where
  "default_globe =
     \<lparr>locations = default_locations, arcs = default_arcs,
      projection = \<lparr>rotate_p = (Fin (- 8.55), Fin (- 47.3667)), scale_p = Fin 200,
                    translate_p = (Fin 200, Fin 200)\<rparr>,
      scaleExtent = (Fin 20, Fin 600), offsetWidth = 400, offsetHeight = 400,
      svg_points = [], svg_arcs = [], console = []\<rparr>"

text \<open>Variants of it: with a second arc, and with the projection at scale 1 and rotation 0.\<close>

definition two_arcs :: globe where
  "two_arcs = default_globe\<lparr>arcs := default_arcs @
      [\<lparr>source = Some ''Zurich'', target = Some ''Milan'', label = Some ''Zurich-Milan'',
        color = Some ''blue''\<rparr>]\<rparr>"

definition unit_zoom :: globe where
  "unit_zoom = default_globe\<lparr>projection := \<lparr>rotate_p = (Fin 0, Fin 0), scale_p = Fin 1,
      translate_p = (Fin 200, Fin 200)\<rparr>\<rparr>"

text \<open>
  \<open>m\<close> is the maximum of the angular distances \<open>ds\<close>: the greatest of those that are numbers,
  and 0 when none is.
\<close>

definition max_angular_distance :: "jsnum list \<Rightarrow> jsnum \<Rightarrow> bool" where
  "max_angular_distance ds m =
     (if \<forall>d \<in> set ds. d = NaN then m = Fin 0
      else m \<in> set ds \<and> m \<noteq> NaN \<and> (\<forall>d \<in> set ds. d \<noteq> NaN \<longrightarrow> js_le d m))"

text \<open>Half of the smaller side of the host element.\<close>

definition fit_radius :: "globe \<Rightarrow> real" where
  "fit_radius st = real (min (offsetWidth st) (offsetHeight st)) / 2"

text \<open>
  States for the fit and the render pass: two locations at \<open>(0, 0)\<close> and one at
  \<open>(180, 0)\<close>, whose centroid is \<open>(0, 0)\<close>; Zurich alone; one location at \<open>(0, 0)\<close> alone, and
  two locations at \<open>(-10, 0)\<close> and \<open>(10, 0)\<close>, for both of which the library computes the
  centroid \<open>(0, 0)\<close> exactly; and a view centred on its first location \<open>(0, 0)\<close>, as \<open>updated\<close>
  turns it before it renders, with a second location at \<open>(90, 0)\<close>, on the horizon, joined by
  an arc to the first.
\<close>

definition antipodal_globe :: globe where
  "antipodal_globe = default_globe
     \<lparr>locations := [\<lparr>name = ''A'', coordinates = [Fin 0, Fin 0]\<rparr>,
                    \<lparr>name = ''B'', coordinates = [Fin 0, Fin 0]\<rparr>,
                    \<lparr>name = ''C'', coordinates = [Fin 180, Fin 0]\<rparr>],
      arcs := []\<rparr>"

definition single_globe :: globe where
  "single_globe = default_globe
     \<lparr>locations := [\<lparr>name = ''Zurich'', coordinates = [Fin 8.55, Fin 47.3667]\<rparr>], arcs := []\<rparr>"

definition origin_globe :: globe where
  "origin_globe = default_globe
     \<lparr>locations := [\<lparr>name = ''Origin'', coordinates = [Fin 0, Fin 0]\<rparr>], arcs := []\<rparr>"

definition pair_globe :: globe where
  "pair_globe = default_globe
     \<lparr>locations := [\<lparr>name = ''West'', coordinates = [Fin (- 10), Fin 0]\<rparr>,
                    \<lparr>name = ''East'', coordinates = [Fin 10, Fin 0]\<rparr>],
      arcs := []\<rparr>"

text \<open>
  The centroid that the library computes in double precision for Zurich alone: its
  latitude is one unit in the last place below that of the location. \<open>zurich_geoCentroid\<close> is
  the centroid function on this input.
\<close>

definition zurich_centroid :: "jsnum \<times> jsnum" where
  "zurich_centroid = (Fin 8.55, Fin 47.366699999999994)"

definition zurich_geoCentroid :: "jsnum list list \<Rightarrow> jsnum \<times> jsnum" where
  "zurich_geoCentroid features = zurich_centroid"

definition horizon_globe :: globe where
  "horizon_globe = default_globe
     \<lparr>locations := [\<lparr>name = ''Centre'', coordinates = [Fin 0, Fin 0]\<rparr>,
                    \<lparr>name = ''East'', coordinates = [Fin 90, Fin 0]\<rparr>],
      arcs := [\<lparr>source = Some ''East'', target = Some ''Centre'', label = Some ''East-Centre'',
                color = None\<rparr>],
      projection := \<lparr>rotate_p = (Fin 0, Fin 0), scale_p = Fin 200, translate_p = (Fin 200, Fin 200)\<rparr>\<rparr>"

section \<open>Auxiliary facts\<close>

lemma two_abs_mult_le: "2 * \<bar>x * y\<bar> \<le> x\<^sup>2 + y\<^sup>2" for x y :: real
proof -
  have "0 \<le> (\<bar>x\<bar> - \<bar>y\<bar>)\<^sup>2" by simp
  then show ?thesis by (simp add: power2_diff abs_mult)
qed

lemma dot_bound: "\<bar>sin a * sin b + cos a * cos b * cos d\<bar> \<le> 1" for a b d :: real
proof -
  have c: "\<bar>cos a * cos b * cos d\<bar> \<le> \<bar>cos a * cos b\<bar>"
    using abs_cos_le_one [of d] by (simp add: abs_mult mult_left_le)
  have "2 * \<bar>sin a * sin b\<bar> + 2 * \<bar>cos a * cos b\<bar> \<le> ((sin a)\<^sup>2 + (cos a)\<^sup>2) + ((sin b)\<^sup>2 + (cos b)\<^sup>2)"
    using two_abs_mult_le [of "sin a" "sin b"] two_abs_mult_le [of "cos a" "cos b"] by linarith
  then have "\<bar>sin a * sin b\<bar> + \<bar>cos a * cos b\<bar> \<le> 1" by simp
  with c show ?thesis by linarith
qed

lemma great_circle_range: "0 \<le> great_circle l0 p0 l1 p1 \<and> great_circle l0 p0 l1 p1 \<le> pi"
  unfolding great_circle_def
  using dot_bound [of "p0 * radians" "p1 * radians" "(l1 - l0) * radians"]
  by (intro arccos_bounded) linarith+

lemma great_circle_same: "great_circle l p l p = 0"
proof -
  have "sin (p * radians) * sin (p * radians) + cos (p * radians) * cos (p * radians) = 1"
    using sin_cos_squared_add [of "p * radians"] by (simp add: power2_eq_square)
  then show ?thesis by (simp add: great_circle_def)
qed

lemma coord_simps [simp]:
  "coord (x # xs) 0 = Some x"
  "coord (x # y # xs) (Suc 0) = Some y"
  "coord [] i = None"
  "coord [x] (Suc 0) = None"
  by (simp_all add: coord_def)

lemma fin_of_simps [simp]:
  "fin_of (Some (Fin x)) = Some x"
  "fin_of (Some PInf) = None"
  "fin_of (Some NInf) = None"
  "fin_of (Some NaN) = None"
  "fin_of None = None"
  by (simp_all add: fin_of_def)

lemma geoDistance_fin [simp]:
  "geoDistance (Fin l0 # Fin p0 # a) (Fin l1 # Fin p1 # b) = Fin (great_circle l0 p0 l1 p1)"
  by (simp add: geoDistance_def)

lemma geoDistance_FinD:
  "geoDistance a b = Fin r \<Longrightarrow> \<exists>l0 p0 l1 p1. r = great_circle l0 p0 l1 p1"
  by (simp add: geoDistance_def split: option.splits) blast

lemma geoDistance_not_inf [simp]: "geoDistance a b \<noteq> PInf" "geoDistance a b \<noteq> NInf"
  by (simp_all add: geoDistance_def split: option.splits)

lemma geoDistance_nonneg: "geoDistance a b = Fin r \<Longrightarrow> 0 \<le> r \<and> r \<le> pi"
  using geoDistance_FinD great_circle_range by blast

lemma geoDistance_same: "geoDistance [x, y] [x, y] = NaN \<or> geoDistance [x, y] [x, y] = Fin 0"
  by (cases x; cases y) (simp_all add: geoDistance_def great_circle_same)

lemma half_pi [simp]: "js_div Math_PI (Fin 2) = Fin (pi / 2)"
  by (simp add: Math_PI_def)

lemma highlight_location_frame:
  "locations (highlight_location st loc) = locations st"
  "arcs (highlight_location st loc) = arcs st"
  "projection (highlight_location st loc) = projection st"
  "scaleExtent (highlight_location st loc) = scaleExtent st"
  "offsetWidth (highlight_location st loc) = offsetWidth st"
  "offsetHeight (highlight_location st loc) = offsetHeight st"
  "svg_arcs (highlight_location st loc) = svg_arcs st"
  by (simp_all add: highlight_location_def warn_def Let_def split: option.splits)

lemma foldl_highlight_frame:
  "locations (foldl highlight_location st ls) = locations st"
  "arcs (foldl highlight_location st ls) = arcs st"
  "projection (foldl highlight_location st ls) = projection st"
  "scaleExtent (foldl highlight_location st ls) = scaleExtent st"
  "offsetWidth (foldl highlight_location st ls) = offsetWidth st"
  "offsetHeight (foldl highlight_location st ls) = offsetHeight st"
  "svg_arcs (foldl highlight_location st ls) = svg_arcs st"
  by (induction ls arbitrary: st; simp add: highlight_location_frame)+

lemma highlightPoints_frame [simp]:
  "locations (highlightPoints st) = locations st"
  "arcs (highlightPoints st) = arcs st"
  "projection (highlightPoints st) = projection st"
  "scaleExtent (highlightPoints st) = scaleExtent st"
  "offsetWidth (highlightPoints st) = offsetWidth st"
  "offsetHeight (highlightPoints st) = offsetHeight st"
  "svg_arcs (highlightPoints st) = svg_arcs st"
  by (simp_all add: highlightPoints_def foldl_highlight_frame)

lemma draw_arc_frame:
  "locations (draw_arc st d) = locations st"
  "arcs (draw_arc st d) = arcs st"
  "projection (draw_arc st d) = projection st"
  "scaleExtent (draw_arc st d) = scaleExtent st"
  "offsetWidth (draw_arc st d) = offsetWidth st"
  "offsetHeight (draw_arc st d) = offsetHeight st"
  "svg_points (draw_arc st d) = svg_points st"
  by (simp_all add: draw_arc_def warn_def Let_def split: option.splits)

lemma foldl_draw_arc_frame:
  "locations (foldl draw_arc st ds) = locations st"
  "arcs (foldl draw_arc st ds) = arcs st"
  "projection (foldl draw_arc st ds) = projection st"
  "scaleExtent (foldl draw_arc st ds) = scaleExtent st"
  "offsetWidth (foldl draw_arc st ds) = offsetWidth st"
  "offsetHeight (foldl draw_arc st ds) = offsetHeight st"
  "svg_points (foldl draw_arc st ds) = svg_points st"
  by (induction ds arbitrary: st; simp add: draw_arc_frame)+

lemma drawArcs_frame [simp]:
  "locations (drawArcs st) = locations st"
  "arcs (drawArcs st) = arcs st"
  "projection (drawArcs st) = projection st"
  "scaleExtent (drawArcs st) = scaleExtent st"
  "offsetWidth (drawArcs st) = offsetWidth st"
  "offsetHeight (drawArcs st) = offsetHeight st"
  "svg_points (drawArcs st) = svg_points st"
  by (simp_all add: drawArcs_def foldl_draw_arc_frame)

lemma highlight_location_points:
  "svg_points (highlight_location st loc) = svg_points st @ (if point_shown st loc then [loc] else [])"
  by (auto simp: highlight_location_def warn_def Let_def coord_def point_shown_def split: option.splits)

lemma highlight_location_view: "view_center (highlight_location st loc) = view_center st"
  by (simp add: view_center_def highlight_location_frame)

lemma point_shown_cong: "view_center st' = view_center st \<Longrightarrow> point_shown st' loc = point_shown st loc"
  by (simp add: point_shown_def)

lemma foldl_highlight_points:
  "svg_points (foldl highlight_location st ls) = svg_points st @ filter (point_shown st) ls"
proof (induction ls arbitrary: st)
  case Nil
  then show ?case by simp
next
  case (Cons l ls)
  have eq: "point_shown (highlight_location st l) = point_shown st"
    by (rule ext, rule point_shown_cong) (simp add: highlight_location_view)
  have "svg_points (foldl highlight_location st (l # ls))
      = svg_points (foldl highlight_location (highlight_location st l) ls)"
    by simp
  also have "\<dots> = svg_points (highlight_location st l) @ filter (point_shown st) ls"
    by (simp only: Cons.IH eq)
  also have "\<dots> = svg_points st @ filter (point_shown st) (l # ls)"
    by (simp add: highlight_location_points)
  finally show ?case .
qed

lemma svg_points_highlightPoints:
  "svg_points (highlightPoints st) = filter (point_shown st) (locations st)"
proof -
  have "point_shown (st\<lparr>svg_points := []\<rparr>) = point_shown st"
    by (rule ext) (simp add: point_shown_def view_center_def)
  then show ?thesis by (simp add: highlightPoints_def foldl_highlight_points)
qed

lemma draw_arc_arcs:
  "svg_arcs (draw_arc st d) = svg_arcs st @ [(d, arc_shown st d)]"
  by (simp add: draw_arc_def warn_def Let_def arc_shown_def split: option.splits)

lemma arc_shown_cong:
  "view_center st' = view_center st \<Longrightarrow> locations st' = locations st \<Longrightarrow> arc_shown st' d = arc_shown st d"
  by (simp add: arc_shown_def split: option.splits)

lemma foldl_draw_arc_arcs:
  "svg_arcs (foldl draw_arc st ds) = svg_arcs st @ map (\<lambda>d. (d, arc_shown st d)) ds"
proof (induction ds arbitrary: st)
  case Nil
  then show ?case by simp
next
  case (Cons d ds)
  have eq: "arc_shown (draw_arc st d) = arc_shown st"
    by (rule ext, rule arc_shown_cong) (simp_all add: view_center_def draw_arc_frame)
  have "svg_arcs (foldl draw_arc st (d # ds)) = svg_arcs (foldl draw_arc (draw_arc st d) ds)"
    by simp
  also have "\<dots> = svg_arcs (draw_arc st d) @ map (\<lambda>d. (d, arc_shown st d)) ds"
    by (simp only: Cons.IH eq)
  also have "\<dots> = svg_arcs st @ map (\<lambda>d. (d, arc_shown st d)) (d # ds)"
    by (simp add: draw_arc_arcs)
  finally show ?case .
qed

lemma svg_arcs_drawArcs:
  "svg_arcs (drawArcs st) = map (\<lambda>d. (d, arc_shown st d)) (arcs st)"
proof -
  have "arc_shown (st\<lparr>svg_arcs := []\<rparr>) = arc_shown st"
    by (rule ext, rule arc_shown_cong) (simp_all add: view_center_def)
  then show ?thesis by (simp add: drawArcs_def foldl_draw_arc_arcs)
qed

lemma updateProjection_frame [simp]:
  "locations (updateProjection st) = locations st"
  "arcs (updateProjection st) = arcs st"
  "projection (updateProjection st) = projection st"
  "scaleExtent (updateProjection st) = scaleExtent st"
  "offsetWidth (updateProjection st) = offsetWidth st"
  "offsetHeight (updateProjection st) = offsetHeight st"
  by (simp_all add: updateProjection_def)

lemma handleZoom_frame [simp]:
  "locations (handleZoom k st) = locations st"
  "arcs (handleZoom k st) = arcs st"
  "scaleExtent (handleZoom k st) = scaleExtent st"
  "offsetWidth (handleZoom k st) = offsetWidth st"
  "offsetHeight (handleZoom k st) = offsetHeight st"
  "rotate_p (projection (handleZoom k st)) = rotate_p (projection st)"
  "translate_p (projection (handleZoom k st)) = translate_p (projection st)"
  "scale_p (projection (handleZoom k st)) =
     Math_max (fst (scaleExtent st)) (Math_min k (snd (scaleExtent st)))"
  by (simp_all add: handleZoom_def Let_def)

lemma clamp_range:
  "js_le lo hi \<Longrightarrow> k \<noteq> NaN \<Longrightarrow>
     js_le lo (Math_max lo (Math_min k hi)) \<and> js_le (Math_max lo (Math_min k hi)) hi"
  by (cases lo; cases hi; cases k) (simp_all add: js_le_def Math_max_def Math_min_def)

lemma clamp_inside:
  "js_le lo k \<Longrightarrow> js_le k hi \<Longrightarrow> Math_max lo (Math_min k hi) = k"
  by (cases lo; cases hi; cases k) (simp_all add: js_le_def Math_max_def Math_min_def)

lemma clamp_below:
  "js_le lo hi \<Longrightarrow> js_lt k lo \<Longrightarrow> Math_max lo (Math_min k hi) = lo"
  by (cases lo; cases hi; cases k) (simp_all add: js_le_def Math_max_def Math_min_def)

lemma clamp_above:
  "js_le lo hi \<Longrightarrow> js_gt k hi \<Longrightarrow> Math_max lo (Math_min k hi) = hi"
  by (cases lo; cases hi; cases k) (simp_all add: js_le_def js_gt_def Math_max_def Math_min_def)

lemma clamp_self:
  "s = NaN \<or> s = PInf \<or> (\<exists>x. s = Fin x \<and> 0 \<le> x) \<Longrightarrow>
     Math_max (js_div s (Fin 10)) (Math_min s (js_mul s (Fin 3))) = s"
  by (auto simp: Math_max_def Math_min_def js_inf_def)

lemma console_highlight_location:
  "console (highlight_location st loc) =
     console st @ (if bad_coordinates loc then [''Invalid coordinates for location: '' @ name loc] else [])"
  by (auto simp: highlight_location_def warn_def Let_def coord_def bad_coordinates_def split: option.splits)

lemma console_foldl_highlight:
  "console (foldl highlight_location st ls) =
     console st @ map (\<lambda>loc. ''Invalid coordinates for location: '' @ name loc) (filter bad_coordinates ls)"
  by (induction ls arbitrary: st) (simp_all add: console_highlight_location)

lemma console_highlightPoints:
  "console (highlightPoints st) =
     console st @ map (\<lambda>loc. ''Invalid coordinates for location: '' @ name loc)
                      (filter bad_coordinates (locations st))"
  by (simp add: highlightPoints_def console_foldl_highlight)

lemma console_draw_arc:
  "console (draw_arc st d) =
     console st @ (if dangling (locations st) d
                   then [''Arc source or target not found: '' @ show_str (label d)] else [])"
  by (simp add: draw_arc_def warn_def Let_def dangling_def split: option.splits)

lemma console_foldl_draw_arc:
  "console (foldl draw_arc st ds) =
     console st @ map (\<lambda>d. ''Arc source or target not found: '' @ show_str (label d))
                      (filter (dangling (locations st)) ds)"
  by (induction ds arbitrary: st) (simp_all add: console_draw_arc draw_arc_frame)

lemma console_drawArcs:
  "console (drawArcs st) =
     console st @ map (\<lambda>d. ''Arc source or target not found: '' @ show_str (label d))
                      (filter (dangling (locations st)) (arcs st))"
  by (simp add: drawArcs_def console_foldl_draw_arc)

lemma console_updateProjection_scale:
  "locations st' = locations st \<Longrightarrow> arcs st' = arcs st \<Longrightarrow> console st' = console st \<Longrightarrow>
     console (updateProjection st') = console (updateProjection st)"
  by (simp add: updateProjection_def console_drawArcs console_highlightPoints)

lemma adjust_frame [simp]:
  "locations (adjustProjectionToFitLocations cen st) = locations st"
  "arcs (adjustProjectionToFitLocations cen st) = arcs st"
  "offsetWidth (adjustProjectionToFitLocations cen st) = offsetWidth st"
  "offsetHeight (adjustProjectionToFitLocations cen st) = offsetHeight st"
  by (simp_all add: adjustProjectionToFitLocations_def Let_def)

lemma find_location_None: "find_location locs n = None \<longleftrightarrow> \<not> (\<exists>loc \<in> set locs. Some (name loc) = n)"
  by (auto simp: find_location_def find_None_iff)

lemma arcs_addArc:
  "arcs (addArc geoCentroid arc st) =
     (if arc_accepted arc st then arcs st @ [arc] else arcs st)"
proof -
  have f: "(List.find (\<lambda>a. label a = label arc) (arcs st) = None) = (\<forall>a \<in> set (arcs st). label a \<noteq> label arc)"
    by (auto simp: find_None_iff)
  have eta: "\<lparr>source = source arc, target = target arc, label = label arc, color = color arc\<rparr> = arc"
    by (cases arc) simp
  show ?thesis
    unfolding addArc_def Let_def eta f arc_accepted_def find_location_None
    by (simp add: warn_def)
qed

lemma drag_move_rotate:
  "rotate_p (projection (snd (drag_move startRotate event st))) =
     (js_add (fst (rotate_p (projection st)))
        (js_mul (js_div (js_sub (fst event) (fst startRotate)) (Fin 2)) (js_div (Fin 100) (getZoom st))),
      js_sub (snd (rotate_p (projection st)))
        (js_mul (js_div (js_sub (snd event) (snd startRotate)) (Fin 2)) (js_div (Fin 100) (getZoom st))))"
  by (simp add: drag_move_def Let_def)

lemma max_step_cases:
  "max_step c (Fin r0) x =
     (case geoDistance c x of Fin d \<Rightarrow> Fin (max d r0) | _ \<Rightarrow> Fin r0)"
  by (cases "geoDistance c x") (auto simp: max_step_def Let_def js_gt_def)

lemma foldl_max_step:
  "\<exists>r. foldl (max_step c) (Fin r0) cs = Fin r \<and> r0 \<le> r
       \<and> (\<forall>x \<in> set cs. \<forall>d. geoDistance c x = Fin d \<longrightarrow> d \<le> r)
       \<and> (r = r0 \<or> (\<exists>x \<in> set cs. geoDistance c x = Fin r))"
proof (induction cs arbitrary: r0)
  case Nil
  then show ?case by simp
next
  case (Cons x cs)
  show ?case
  proof (cases "geoDistance c x")
    case (Fin d)
    obtain r where r: "foldl (max_step c) (Fin (max d r0)) cs = Fin r" "max d r0 \<le> r"
        "\<forall>y \<in> set cs. \<forall>e. geoDistance c y = Fin e \<longrightarrow> e \<le> r"
        "r = max d r0 \<or> (\<exists>y \<in> set cs. geoDistance c y = Fin r)"
      using Cons.IH [of "max d r0"] by blast
    have "foldl (max_step c) (Fin r0) (x # cs) = Fin r"
      by (simp add: max_step_cases Fin r(1))
    moreover have "r0 \<le> r" using r(2) by simp
    moreover have "\<forall>y \<in> set (x # cs). \<forall>e. geoDistance c y = Fin e \<longrightarrow> e \<le> r"
      using r(2,3) Fin by auto
    moreover have "r = r0 \<or> (\<exists>y \<in> set (x # cs). geoDistance c y = Fin r)"
      using r(4) Fin by (auto simp: max_def split: if_splits)
    ultimately show ?thesis by blast
  next
    case NaN
    obtain r where r: "foldl (max_step c) (Fin r0) cs = Fin r" "r0 \<le> r"
        "\<forall>y \<in> set cs. \<forall>e. geoDistance c y = Fin e \<longrightarrow> e \<le> r"
        "r = r0 \<or> (\<exists>y \<in> set cs. geoDistance c y = Fin r)"
      using Cons.IH [of r0] by blast
    have "foldl (max_step c) (Fin r0) (x # cs) = Fin r"
      by (simp add: max_step_cases NaN r(1))
    then show ?thesis using r NaN by auto
  qed simp_all
qed

lemma raw_maxDistance_props:
  "\<exists>r. raw_maxDistance c cs = Fin r \<and> 0 \<le> r
       \<and> (\<forall>x \<in> set cs. \<forall>d. geoDistance c x = Fin d \<longrightarrow> d \<le> r)
       \<and> (r = 0 \<or> (\<exists>x \<in> set cs. geoDistance c x = Fin r))"
  unfolding raw_maxDistance_def by (rule foldl_max_step)

lemma raw_maxDistance_max:
  "max_angular_distance (map (geoDistance c) cs) (raw_maxDistance c cs)"
proof -
  obtain r where r: "raw_maxDistance c cs = Fin r" "0 \<le> r"
      "\<forall>x \<in> set cs. \<forall>d. geoDistance c x = Fin d \<longrightarrow> d \<le> r"
      "r = 0 \<or> (\<exists>x \<in> set cs. geoDistance c x = Fin r)"
    using raw_maxDistance_props by blast
  show ?thesis
  proof (cases "\<forall>x \<in> set cs. geoDistance c x = NaN")
    case True
    then have "r = 0" using r(4) by auto
    with True show ?thesis by (simp add: max_angular_distance_def r(1))
  next
    case False
    then obtain x d where x: "x \<in> set cs" "geoDistance c x = Fin d"
      by (metis geoDistance_not_inf jsnum.exhaust)
    have "0 \<le> d" using geoDistance_nonneg [OF x(2)] by simp
    moreover have "d \<le> r" using r(3) x by blast
    ultimately have "\<exists>y \<in> set cs. geoDistance c y = Fin r"
      using r(4) x by force
    then have "Fin r \<in> set (map (geoDistance c) cs)"
      by (metis (no_types, lifting) image_eqI list.set_map)
    moreover have "\<forall>y \<in> set cs. geoDistance c y \<noteq> NaN \<longrightarrow> js_le (geoDistance c y) (Fin r)"
    proof (intro ballI impI)
      fix y assume y: "y \<in> set cs" "geoDistance c y \<noteq> NaN"
      then obtain e where e: "geoDistance c y = Fin e"
        by (metis geoDistance_not_inf jsnum.exhaust)
      with r(3) y(1) have "e \<le> r" by blast
      then show "js_le (geoDistance c y) (Fin r)" by (simp add: e js_le_def)
    qed
    ultimately show ?thesis
      using False by (auto simp: max_angular_distance_def r(1))
  qed
qed

lemma raw_maxDistance_pos:
  "(\<exists>r. raw_maxDistance c cs = Fin r \<and> 0 < r) \<longleftrightarrow> (\<exists>x \<in> set cs. js_gt (geoDistance c x) (Fin 0))"
proof -
  obtain r where r: "raw_maxDistance c cs = Fin r" "0 \<le> r"
      "\<forall>x \<in> set cs. \<forall>d. geoDistance c x = Fin d \<longrightarrow> d \<le> r"
      "r = 0 \<or> (\<exists>x \<in> set cs. geoDistance c x = Fin r)"
    using raw_maxDistance_props by blast
  have gt: "js_gt (geoDistance c x) (Fin 0) \<longleftrightarrow> (\<exists>d. geoDistance c x = Fin d \<and> 0 < d)" for x
    by (cases "geoDistance c x") (simp_all add: js_gt_def)
  show ?thesis
    unfolding gt r(1) using r(2,3,4) by force
qed

lemma requiredScale_Fin:
  "requiredScale st (Fin r) = js_div (Fin (0.8 * fit_radius st)) (Fin (sin r))"
  by (simp add: requiredScale_def fit_radius_def Let_def)

lemma fit_radius_nonneg: "0 \<le> fit_radius st"
  by (simp add: fit_radius_def)

lemma requiredScale_class:
  assumes "0 \<le> r" and "r \<le> pi / 2"
  shows "requiredScale st (Fin r) = NaN \<or> requiredScale st (Fin r) = PInf
       \<or> (\<exists>x. requiredScale st (Fin r) = Fin x \<and> 0 \<le> x)"
proof -
  have "0 \<le> sin r" using assms by (intro sin_ge_zero) (auto intro: order_trans)
  then show ?thesis
    using fit_radius_nonneg [of st]
    by (auto simp: requiredScale_Fin js_inf_def sgn_real_def)
qed

lemma Math_min_half_pi:
  "Math_min (Fin r) (Fin (pi / 2)) = Fin (min r (pi / 2))"
  by (simp add: Math_min_def min_def)

lemma fit_result:
  assumes "locations st \<noteq> []"
  shows "projection (adjustProjectionToFitLocations geoCentroid st) =
           (projection st)
             \<lparr>rotate_p := (js_neg (fst (geoCentroid (map coordinates (locations st)))),
                           js_neg (snd (geoCentroid (map coordinates (locations st))))),
              scale_p := requiredScale st
                 (Math_min (raw_maxDistance [fst (geoCentroid (map coordinates (locations st))),
                                             snd (geoCentroid (map coordinates (locations st)))]
                              (map coordinates (locations st)))
                           (Fin (pi / 2)))\<rparr>"
    and "scaleExtent (adjustProjectionToFitLocations geoCentroid st) =
           (js_div (requiredScale st
                 (Math_min (raw_maxDistance [fst (geoCentroid (map coordinates (locations st))),
                                             snd (geoCentroid (map coordinates (locations st)))]
                              (map coordinates (locations st)))
                           (Fin (pi / 2)))) (Fin 10),
            js_mul (requiredScale st
                 (Math_min (raw_maxDistance [fst (geoCentroid (map coordinates (locations st))),
                                             snd (geoCentroid (map coordinates (locations st)))]
                              (map coordinates (locations st)))
                           (Fin (pi / 2)))) (Fin 3))"
proof -
  let ?c = "geoCentroid (map coordinates (locations st))"
  let ?m = "raw_maxDistance [fst ?c, snd ?c] (map coordinates (locations st))"
  let ?s = "requiredScale st (Math_min ?m (Fin (pi / 2)))"
  obtain r where r: "?m = Fin r" "0 \<le> r"
    using raw_maxDistance_props [of "[fst ?c, snd ?c]" "map coordinates (locations st)"] by blast
  have "?s = NaN \<or> ?s = PInf \<or> (\<exists>x. ?s = Fin x \<and> 0 \<le> x)"
    unfolding r(1) Math_min_half_pi using r(2) by (intro requiredScale_class) auto
  then have clamp: "Math_max (js_div ?s (Fin 10)) (Math_min ?s (js_mul ?s (Fin 3))) = ?s"
    by (rule clamp_self)
  have p: "projection (adjustProjectionToFitLocations geoCentroid st) =
      (projection st)\<lparr>rotate_p := (js_neg (fst ?c), js_neg (snd ?c)),
         scale_p := Math_max (js_div ?s (Fin 10)) (Math_min ?s (js_mul ?s (Fin 3)))\<rparr>"
    using assms by (simp add: adjustProjectionToFitLocations_def Let_def handleZoom_def)
  show "projection (adjustProjectionToFitLocations geoCentroid st) =
      (projection st)\<lparr>rotate_p := (js_neg (fst ?c), js_neg (snd ?c)), scale_p := ?s\<rparr>"
    unfolding p clamp ..
  show "scaleExtent (adjustProjectionToFitLocations geoCentroid st) =
      (js_div ?s (Fin 10), js_mul ?s (Fin 3))"
    using assms by (simp add: adjustProjectionToFitLocations_def Let_def)
qed

lemma great_circle_half_turn: "great_circle 0 0 180 0 = pi"
  by (simp add: great_circle_def radians_def)

lemma great_circle_quarter_turn: "great_circle 90 0 0 0 = pi / 2"
proof -
  have h: "(0 - 90) * radians = - (pi / 2)" by (simp add: radians_def)
  show ?thesis unfolding great_circle_def h by simp
qed

lemma raw_maxDistance_coincide:
  assumes "\<forall>x \<in> set cs. x = [a, b]"
  shows "raw_maxDistance [a, b] cs = Fin 0"
proof -
  obtain r where r: "raw_maxDistance [a, b] cs = Fin r" "0 \<le> r"
      "r = 0 \<or> (\<exists>x \<in> set cs. geoDistance [a, b] x = Fin r)"
    using raw_maxDistance_props [of "[a, b]" cs] by blast
  have "r = 0"
    using r(3) assms geoDistance_same [of a b] by auto
  then show ?thesis by (simp add: r(1))
qed

text \<open>The maximum of a list of distances is determined by the list.\<close>

lemma js_le_antisym: "js_le a b \<Longrightarrow> js_le b a \<Longrightarrow> a = b"
  by (cases a; cases b) (simp_all add: js_le_def)

lemma max_angular_distance_unique:
  assumes "max_angular_distance ds m" and "max_angular_distance ds m'"
  shows "m = m'"
proof (cases "\<forall>d \<in> set ds. d = NaN")
  case True
  with assms show ?thesis by (simp add: max_angular_distance_def)
next
  case False
  with assms have "js_le m m'" "js_le m' m"
    by (auto simp: max_angular_distance_def)
  then show ?thesis by (rule js_le_antisym)
qed

text \<open>Distances along a meridian and along the equator.\<close>

lemma great_circle_same_longitude:
  assumes "0 \<le> (p1 - p0) * radians" and "(p1 - p0) * radians \<le> pi"
  shows "great_circle l p0 l p1 = (p1 - p0) * radians"
proof -
  have "sin (p0 * radians) * sin (p1 * radians) + cos (p0 * radians) * cos (p1 * radians)
      = cos (p1 * radians - p0 * radians)"
    by (simp add: cos_diff)
  also have "p1 * radians - p0 * radians = (p1 - p0) * radians"
    by (simp add: algebra_simps)
  finally show ?thesis
    using assms by (simp add: great_circle_def arccos_cos)
qed

lemma great_circle_equator:
  assumes "0 \<le> (l1 - l0) * radians" and "(l1 - l0) * radians \<le> pi"
  shows "great_circle l0 0 l1 0 = (l1 - l0) * radians"
  using assms by (simp add: great_circle_def arccos_cos)

text \<open>
  The scale after the fit, in the exact arithmetic of the model: what it is when every
  location has the coordinates of the centroid, and when it is finite.
\<close>

lemma fit_scale_at_centroid:
  assumes "locations st \<noteq> []" and "c = geoCentroid (map coordinates (locations st))"
  shows "((\<forall>loc \<in> set (locations st). coordinates loc = [fst c, snd c]) \<longrightarrow>
            raw_maxDistance [fst c, snd c] (map coordinates (locations st)) = Fin 0
          \<and> scale_p (projection (adjustProjectionToFitLocations geoCentroid st))
              = js_div (Fin (0.8 * (real (min (offsetWidth st) (offsetHeight st)) / 2))) (Fin (sin 0))
          \<and> \<not> is_finite (scale_p (projection (adjustProjectionToFitLocations geoCentroid st)))
          \<and> (0 < min (offsetWidth st) (offsetHeight st) \<longrightarrow>
                scale_p (projection (adjustProjectionToFitLocations geoCentroid st)) = PInf
              \<and> scaleExtent (adjustProjectionToFitLocations geoCentroid st) = (PInf, PInf)))
       \<and> (is_finite (scale_p (projection (adjustProjectionToFitLocations geoCentroid st)))
            \<longleftrightarrow> (\<exists>loc \<in> set (locations st).
                   js_gt (geoDistance [fst c, snd c] (coordinates loc)) (Fin 0)))"
proof -
  let ?m = "raw_maxDistance [fst c, snd c] (map coordinates (locations st))"
  let ?s = "scale_p (projection (adjustProjectionToFitLocations geoCentroid st))"
  obtain r where r: "?m = Fin r" "0 \<le> r"
    using raw_maxDistance_props [of "[fst c, snd c]" "map coordinates (locations st)"] by blast
  have s: "?s = js_div (Fin (0.8 * fit_radius st)) (Fin (sin (min r (pi / 2))))"
    by (simp add: fit_result(1) [OF assms(1)] assms(2) [symmetric] r(1) Math_min_half_pi
          requiredScale_Fin)
  have e: "scaleExtent (adjustProjectionToFitLocations geoCentroid st)
             = (js_div ?s (Fin 10), js_mul ?s (Fin 3))"
    by (simp add: fit_result [OF assms(1)])
  have sin0: "sin (min r (pi / 2)) = 0 \<longleftrightarrow> r = 0"
  proof
    assume z: "sin (min r (pi / 2)) = 0"
    show "r = 0"
    proof (rule ccontr)
      assume "r \<noteq> 0"
      then have "0 < min r (pi / 2)" "min r (pi / 2) < pi"
        using r(2) pi_gt_zero by (auto simp: min_def)
      then have "0 < sin (min r (pi / 2))" by (rule sin_gt_zero)
      with z show False by simp
    qed
  qed simp
  have fin: "is_finite ?s \<longleftrightarrow> 0 < r"
    using r(2) by (auto simp: s sin0 js_inf_def)
  have pos: "(0 < r) \<longleftrightarrow> (\<exists>loc \<in> set (locations st).
                   js_gt (geoDistance [fst c, snd c] (coordinates loc)) (Fin 0))"
    using raw_maxDistance_pos [of "[fst c, snd c]" "map coordinates (locations st)"]
    by (simp add: r(1))
  have co: "(\<forall>loc \<in> set (locations st). coordinates loc = [fst c, snd c]) \<Longrightarrow> r = 0"
    using raw_maxDistance_coincide [of "map coordinates (locations st)" "fst c" "snd c"]
    by (simp add: r(1))
  have zero: "r = 0 \<Longrightarrow> ?s = js_div (Fin (0.8 * (real (min (offsetWidth st) (offsetHeight st)) / 2))) (Fin (sin 0))"
    by (simp add: s fit_radius_def)
  have inf: "r = 0 \<Longrightarrow> 0 < min (offsetWidth st) (offsetHeight st) \<Longrightarrow> ?s = PInf"
    by (simp add: s fit_radius_def js_inf_def)
  show ?thesis
  proof (intro conjI impI)
    assume a: "\<forall>loc \<in> set (locations st). coordinates loc = [fst c, snd c]"
    show "?m = Fin 0" using co [OF a] by (simp add: r(1))
    show "?s = js_div (Fin (0.8 * (real (min (offsetWidth st) (offsetHeight st)) / 2))) (Fin (sin 0))"
      using zero co [OF a] by simp
    show "\<not> is_finite ?s" using fin co [OF a] by simp
    assume b: "0 < min (offsetWidth st) (offsetHeight st)"
    show "?s = PInf" using inf co [OF a] b by simp
    then show "scaleExtent (adjustProjectionToFitLocations geoCentroid st) = (PInf, PInf)"
      by (simp add: e js_inf_def)
  next
    show "is_finite ?s \<longleftrightarrow> (\<exists>loc \<in> set (locations st).
                   js_gt (geoDistance [fst c, snd c] (coordinates loc)) (Fin 0))"
      using fin pos by simp
  qed
qed

section \<open>The claims\<close>

subsection \<open>C10: no locations, no fitting\<close>

text \<open>
  Claim C10. When the locations list is empty, \<open>adjustProjectionToFitLocations\<close> returns at
  once: the whole component, and so the projection's rotation, scale and translation and the
  zoom scale extent, is left as it was, whatever the library's centroid function is.
\<close>

theorem fit_skipped_without_locations:
  "locations st = [] \<Longrightarrow> adjustProjectionToFitLocations geoCentroid st = st"
  by (simp add: adjustProjectionToFitLocations_def)

theorem fit_skipped_without_locations_witness:
  "locations (default_globe\<lparr>locations := [], arcs := []\<rparr>) = []
   \<and> adjustProjectionToFitLocations (\<lambda>features. (NaN, NaN)) (default_globe\<lparr>locations := [], arcs := []\<rparr>)
     = default_globe\<lparr>locations := [], arcs := []\<rparr>"
  using fit_skipped_without_locations [of "default_globe\<lparr>locations := [], arcs := []\<rparr>" "\<lambda>features. (NaN, NaN)"]
  by simp

subsection \<open>C7: removing a location removes its arcs\<close>

text \<open>
  Claim C7. For every name and every component state, \<open>removeLocation\<close> keeps exactly the
  locations with another name and exactly the arcs whose source and target both differ from
  the name, and changes nothing else: afterwards no location has the name, no arc refers to
  it, and every arc that did not refer to it is still there.
\<close>

theorem removeLocation_removes_arcs:
  "removeLocation n st =
     st\<lparr>locations := filter (\<lambda>loc. name loc \<noteq> n) (locations st),
        arcs := filter (\<lambda>arc. source arc \<noteq> Some n \<and> target arc \<noteq> Some n) (arcs st)\<rparr>
   \<and> (\<forall>loc \<in> set (locations (removeLocation n st)). name loc \<noteq> n)
   \<and> (\<forall>arc \<in> set (arcs (removeLocation n st)). source arc \<noteq> Some n \<and> target arc \<noteq> Some n)
   \<and> (\<forall>arc \<in> set (arcs st). source arc \<noteq> Some n \<and> target arc \<noteq> Some n
         \<longrightarrow> arc \<in> set (arcs (removeLocation n st)))"
  by (simp add: removeLocation_def Let_def)

theorem removeLocation_removes_arcs_witness:
  "map name (locations (removeLocation ''Paris'' default_globe)) = [''London'', ''Milan'', ''Zurich'', ''Frankfurt'']
   \<and> arcs (removeLocation ''Paris'' default_globe) = []
   \<and> arcs default_globe \<noteq> []"
  using removeLocation_removes_arcs [of "''Paris''" default_globe]
  by (simp add: default_globe_def default_locations_def default_arcs_def)

subsection \<open>C6: range check of a new location\<close>

text \<open>
  Claim C6. For a location whose \<open>coordinates\<close> is the two-element array \<open>[lon, lat]\<close>:
  if the longitude is a number outside \<open>[-180, 180]\<close> or the latitude a number outside
  \<open>[-90, 90]\<close>, \<open>addLocation\<close> leaves the state as it was but for one warning added to
  the console; if both lie within their ranges, the location is appended to the list and
  nothing else changes. A coordinates array of another length is rejected with a warning
  too. (\<open>NaN\<close> is neither within nor outside a range: both comparisons of the code are
  false for it, and the statement says nothing about it.)
\<close>

theorem addLocation_range_check:
  "(coordinates loc = [lon, lat] \<and> (outside (- 180) 180 lon \<or> outside (- 90) 90 lat)
      \<longrightarrow> addLocation (Some loc) st = st\<lparr>console := console st @ [''Invalid longitude or latitude values:'']\<rparr>)
   \<and> (coordinates loc = [lon, lat] \<and> in_range (- 180) 180 lon \<and> in_range (- 90) 90 lat
      \<longrightarrow> addLocation (Some loc) st = st\<lparr>locations := locations st @ [loc]\<rparr>)
   \<and> (length (coordinates loc) \<noteq> 2
      \<longrightarrow> addLocation (Some loc) st = st\<lparr>console := console st @ [''Invalid location format:'']\<rparr>)"
proof -
  have a: "outside (- 180) 180 lon \<Longrightarrow> js_lt lon (Fin (- 180)) \<or> js_gt lon (Fin 180)"
    by (cases lon) (auto simp: outside_def in_range_def js_le_def js_gt_def)
  have b: "outside (- 90) 90 lat \<Longrightarrow> js_lt lat (Fin (- 90)) \<or> js_gt lat (Fin 90)"
    by (cases lat) (auto simp: outside_def in_range_def js_le_def js_gt_def)
  have c: "in_range (- 180) 180 lon \<Longrightarrow> \<not> js_lt lon (Fin (- 180)) \<and> \<not> js_gt lon (Fin 180)"
    by (cases lon) (auto simp: in_range_def js_le_def js_gt_def)
  have d: "in_range (- 90) 90 lat \<Longrightarrow> \<not> js_lt lat (Fin (- 90)) \<and> \<not> js_gt lat (Fin 90)"
    by (cases lat) (auto simp: in_range_def js_le_def js_gt_def)
  show ?thesis
    using a b c d by (auto simp: addLocation_def warn_def Let_def)
qed

theorem addLocation_range_check_witness:
  "addLocation (Some \<lparr>name = ''Nowhere'', coordinates = [Fin 200, Fin 0]\<rparr>) default_globe
     = default_globe\<lparr>console := [''Invalid longitude or latitude values:'']\<rparr>
   \<and> addLocation (Some \<lparr>name = ''Berlin'', coordinates = [Fin 13.405, Fin 52.52]\<rparr>) default_globe
     = default_globe\<lparr>locations := default_locations @ [\<lparr>name = ''Berlin'', coordinates = [Fin 13.405, Fin 52.52]\<rparr>]\<rparr>
   \<and> addLocation (Some \<lparr>name = ''Flat'', coordinates = [Fin 1]\<rparr>) default_globe
     = default_globe\<lparr>console := [''Invalid location format:'']\<rparr>"
  using addLocation_range_check [of "\<lparr>name = ''Nowhere'', coordinates = [Fin 200, Fin 0]\<rparr>" "Fin 200" "Fin 0" default_globe]
        addLocation_range_check [of "\<lparr>name = ''Berlin'', coordinates = [Fin 13.405, Fin 52.52]\<rparr>" "Fin 13.405" "Fin 52.52" default_globe]
        addLocation_range_check [of "\<lparr>name = ''Flat'', coordinates = [Fin 1]\<rparr>" "Fin 1" "Fin 1" default_globe]
  by (simp add: outside_def in_range_def js_le_def default_globe_def)

subsection \<open>C9: zoom requests are clamped\<close>

text \<open>
  Claim C9. Let the scale extent be a proper interval and \<open>k\<close> a requested zoom value (a
  number, possibly infinite), delivered by a gesture to \<open>handleZoom\<close> or by \<open>setZoom\<close>.
  Then the resulting scale, which is what \<open>getZoom\<close> returns, lies within the extent: it is
  \<open>k\<close> itself when \<open>k\<close> is within the extent, the lower bound when \<open>k\<close> is below it and the
  upper bound when \<open>k\<close> is above it. The request is never refused: the extent is unchanged and
  the console receives exactly what re-rendering the overlays writes, whatever \<open>k\<close> is.
\<close>

theorem zoom_is_clamped:
  assumes "js_le (fst (scaleExtent st)) (snd (scaleExtent st))" and "k \<noteq> NaN"
      and "st' = handleZoom k st \<or> st' = setZoom k st"
  shows "scale_p (projection st') = getZoom st'
       \<and> js_le (fst (scaleExtent st)) (getZoom st') \<and> js_le (getZoom st') (snd (scaleExtent st))
       \<and> (js_le (fst (scaleExtent st)) k \<and> js_le k (snd (scaleExtent st)) \<longrightarrow> getZoom st' = k)
       \<and> (js_lt k (fst (scaleExtent st)) \<longrightarrow> getZoom st' = fst (scaleExtent st))
       \<and> (js_gt k (snd (scaleExtent st)) \<longrightarrow> getZoom st' = snd (scaleExtent st))
       \<and> scaleExtent st' = scaleExtent st
       \<and> console st' = console (updateProjection st)"
proof -
  have st': "st' = handleZoom k st"
    using assms(3) by (auto simp: setZoom_def)
  have "console (handleZoom k st) = console (updateProjection st)"
    unfolding handleZoom_def Let_def by (rule console_updateProjection_scale) simp_all
  then show ?thesis
    using clamp_range [OF assms(1,2)] clamp_inside clamp_below [OF assms(1)] clamp_above [OF assms(1)]
    by (simp add: st' getZoom_def)
qed

theorem zoom_is_clamped_witness:
  "js_le (fst (scaleExtent default_globe)) (snd (scaleExtent default_globe))
   \<and> getZoom (setZoom (Fin 1000) default_globe) = Fin 600
   \<and> getZoom (handleZoom (Fin 1) default_globe) = Fin 20
   \<and> getZoom (handleZoom (Fin 250) default_globe) = Fin 250
   \<and> getZoom (setZoom PInf default_globe) = Fin 600"
proof -
  have e: "scaleExtent default_globe = (Fin 20, Fin 600)"
    by (simp add: default_globe_def)
  have h: "js_le (fst (scaleExtent default_globe)) (snd (scaleExtent default_globe))"
    by (simp add: e js_le_def)
  have 1: "getZoom (setZoom (Fin 1000) default_globe) = Fin 600"
    using zoom_is_clamped [OF h, of "Fin 1000" "setZoom (Fin 1000) default_globe"]
    by (simp add: e js_gt_def)
  have 2: "getZoom (handleZoom (Fin 1) default_globe) = Fin 20"
    using zoom_is_clamped [OF h, of "Fin 1" "handleZoom (Fin 1) default_globe"]
    by (simp add: e)
  have 3: "getZoom (handleZoom (Fin 250) default_globe) = Fin 250"
    using zoom_is_clamped [OF h, of "Fin 250" "handleZoom (Fin 250) default_globe"]
    by (simp add: e js_le_def)
  have 4: "getZoom (setZoom PInf default_globe) = Fin 600"
    using zoom_is_clamped [OF h, of PInf "setZoom PInf default_globe"]
    by (simp add: e js_gt_def)
  show ?thesis using h 1 2 3 4 by simp
qed

subsection \<open>C5: an arc with a label already in use is rejected\<close>

text \<open>
  Claim C5. \<open>arc_accepted\<close> collects the conditions of the claim: source, target and label
  are present (truthy), both named locations exist, and no arc of the list has the label.
  An arc whose label equals that of an existing arc is not accepted. An arc that is not
  accepted leaves the whole state as it was but for one warning added to the console. An
  accepted arc is appended to the arcs list, after which the projection is fitted again;
  the arcs list changes in no other case.
\<close>

theorem addArc_rejects_duplicate_label:
  "((\<exists>a \<in> set (arcs st). label a = label arc) \<longrightarrow>
         \<not> arc_accepted arc st
       \<and> (\<exists>w. addArc geoCentroid arc st = st\<lparr>console := console st @ [w]\<rparr>))
   \<and> (\<not> arc_accepted arc st \<longrightarrow>
         (\<exists>w. addArc geoCentroid arc st = st\<lparr>console := console st @ [w]\<rparr>))
   \<and> (arc_accepted arc st \<longrightarrow>
         addArc geoCentroid arc st
           = adjustProjectionToFitLocations geoCentroid (st\<lparr>arcs := arcs st @ [arc]\<rparr>)
         \<and> arcs (addArc geoCentroid arc st) = arcs st @ [arc]
         \<and> locations (addArc geoCentroid arc st) = locations st)"
proof -
  have dup: "(\<exists>a \<in> set (arcs st). label a = label arc) \<longrightarrow> \<not> arc_accepted arc st"
    by (auto simp: arc_accepted_def)
  have f: "(List.find (\<lambda>a. label a = label arc) (arcs st) = None) = (\<forall>a \<in> set (arcs st). label a \<noteq> label arc)"
    by (auto simp: find_None_iff)
  have eta: "\<lparr>source = source arc, target = target arc, label = label arc, color = color arc\<rparr> = arc"
    by (cases arc) simp
  have eq: "addArc geoCentroid arc st =
      (if arc_accepted arc st
       then adjustProjectionToFitLocations geoCentroid (st\<lparr>arcs := arcs st @ [arc]\<rparr>)
       else if falsy (source arc) \<or> falsy (target arc) \<or> falsy (label arc)
       then warn ''Arc must have source, target, and label:'' st
       else if find_location (locations st) (source arc) = None
               \<or> find_location (locations st) (target arc) = None
       then warn ''Source or target location not found for arc:'' st
       else warn ''Arc with the same label already exists:'' st)"
    unfolding addArc_def Let_def eta f arc_accepted_def find_location_None by simp
  have warn_ex: "\<exists>w. warn m st = st\<lparr>console := console st @ [w]\<rparr>" for m
    by (rule exI [of _ m]) (simp add: warn_def)
  have rej: "\<not> arc_accepted arc st \<longrightarrow>
         (\<exists>w. addArc geoCentroid arc st = st\<lparr>console := console st @ [w]\<rparr>)"
    using warn_ex by (simp add: eq)
  show ?thesis using dup rej by (simp add: eq)
qed

theorem addArc_rejects_duplicate_label_witness:
  "addArc (\<lambda>features. (Fin 0, Fin 0))
      \<lparr>source = Some ''Zurich'', target = Some ''Milan'', label = Some ''Zurich-Paris'', color = None\<rparr>
      default_globe
    = default_globe\<lparr>console := [''Arc with the same label already exists:'']\<rparr>
   \<and> arcs (addArc (\<lambda>features. (Fin 0, Fin 0))
      \<lparr>source = Some ''Zurich'', target = Some ''Milan'', label = Some ''Zurich-Milan'', color = None\<rparr>
      default_globe)
    = default_arcs @ [\<lparr>source = Some ''Zurich'', target = Some ''Milan'', label = Some ''Zurich-Milan'', color = None\<rparr>]"
proof -
  let ?dup = "\<lparr>source = Some ''Zurich'', target = Some ''Milan'', label = Some ''Zurich-Paris'', color = None\<rparr>"
  let ?new = "\<lparr>source = Some ''Zurich'', target = Some ''Milan'', label = Some ''Zurich-Milan'', color = None\<rparr>"
  have d: "\<exists>a \<in> set (arcs default_globe). label a = label ?dup"
    by (simp add: default_globe_def default_arcs_def)
  have n: "arc_accepted ?new default_globe"
    by (simp add: arc_accepted_def falsy_def default_globe_def default_arcs_def default_locations_def)
  have w: "addArc (\<lambda>features. (Fin 0, Fin 0)) ?dup default_globe
             = default_globe\<lparr>console := [''Arc with the same label already exists:'']\<rparr>"
    by (simp add: addArc_def falsy_def find_location_def warn_def default_globe_def default_arcs_def default_locations_def)
  show ?thesis
    using addArc_rejects_duplicate_label [of default_globe ?dup "\<lambda>features. (Fin 0, Fin 0)"]
          addArc_rejects_duplicate_label [of default_globe ?new "\<lambda>features. (Fin 0, Fin 0)"] d n w
    by (simp add: default_globe_def)
qed

subsection \<open>C8: label uniqueness is checked by addArc only\<close>

text \<open>
  Claim C8. \<open>addArc\<close> keeps the labels of the arcs list distinct, whatever arc it is given;
  \<open>updateArc\<close> does not check the new label. In the state \<open>two_arcs\<close>, whose two arcs have
  distinct labels, updating the arc from Zurich to Milan with the label of the arc from Zurich
  to Paris succeeds and leaves two arcs with the same label: distinctness of the labels is
  not preserved by every operation.
\<close>

theorem label_uniqueness_checked_only_by_addArc:
  "(\<forall>st arc. labels_distinct st \<longrightarrow> labels_distinct (addArc geoCentroid arc st))
   \<and> labels_distinct two_arcs
   \<and> \<not> labels_distinct (updateArc ''Zurich'' ''Milan'' (Some ''red'') (Some ''Zurich-Paris'') two_arcs)"
proof -
  have a: "labels_distinct st \<longrightarrow> labels_distinct (addArc geoCentroid arc st)" for st arc
    by (auto simp: labels_distinct_def arcs_addArc arc_accepted_def)
  have b: "labels_distinct two_arcs"
    by (simp add: labels_distinct_def two_arcs_def default_arcs_def)
  have c: "arcs (updateArc ''Zurich'' ''Milan'' (Some ''red'') (Some ''Zurich-Paris'') two_arcs)
           = [\<lparr>source = Some ''Zurich'', target = Some ''Paris'', label = Some ''Zurich-Paris'', color = Some ''green''\<rparr>,
              \<lparr>source = Some ''Zurich'', target = Some ''Milan'', label = Some ''Zurich-Paris'', color = Some ''red''\<rparr>]"
    by (simp add: updateArc_def findIndex_def two_arcs_def default_arcs_def)
  show ?thesis using a b by (simp add: labels_distinct_def c)
qed

theorem label_uniqueness_checked_only_by_addArc_witness:
  "labels_distinct default_globe
   \<and> labels_distinct (addArc (\<lambda>features. (Fin 0, Fin 0))
        \<lparr>source = Some ''Zurich'', target = Some ''Milan'', label = Some ''Zurich-Paris'', color = None\<rparr>
        default_globe)
   \<and> labels_distinct (addArc (\<lambda>features. (Fin 0, Fin 0))
        \<lparr>source = Some ''Zurich'', target = Some ''Milan'', label = Some ''Zurich-Milan'', color = None\<rparr>
        default_globe)"
proof -
  have d: "labels_distinct default_globe"
    by (simp add: labels_distinct_def default_globe_def default_arcs_def)
  show ?thesis
    using label_uniqueness_checked_only_by_addArc [of "\<lambda>features. (Fin 0, Fin 0)"] d by blast
qed

subsection \<open>C1: rotation by dragging\<close>

text \<open>
  Claim C1, amended. A drag event that is \<open>(dx, dy) = (ex - sx, ey - sy)\<close> pixels away from
  the last pointer position adds \<open>(dx / 2) * (100 / zoom)\<close> degrees to the first rotation angle
  and subtracts \<open>(dy / 2) * (100 / zoom)\<close> degrees from the second, where \<open>zoom\<close> is the non-zero
  number returned by \<open>getZoom\<close>: the change is inversely proportional to the zoom, it is
  \<open>(dx / 2, - dy / 2)\<close> when the zoom is 100 and \<open>(50 * dx, - 50 * dy)\<close> when the zoom is 1.
  The scale is unchanged and the event's position becomes the new starting point.
\<close>

theorem drag_rotation_delta:
  assumes "startRotate = (Fin sx, Fin sy)" and "event = (Fin ex, Fin ey)"
      and "rotate_p (projection st) = (Fin r0, Fin r1)"
      and "getZoom st = Fin zoom" and "zoom \<noteq> 0"
  shows "rotate_p (projection (snd (drag_move startRotate event st)))
           = (Fin (r0 + ((ex - sx) / 2) * (100 / zoom)), Fin (r1 - ((ey - sy) / 2) * (100 / zoom)))
       \<and> (zoom = 100 \<longrightarrow> rotate_p (projection (snd (drag_move startRotate event st)))
           = (Fin (r0 + (ex - sx) / 2), Fin (r1 - (ey - sy) / 2)))
       \<and> (zoom = 1 \<longrightarrow> rotate_p (projection (snd (drag_move startRotate event st)))
           = (Fin (r0 + 50 * (ex - sx)), Fin (r1 - 50 * (ey - sy))))
       \<and> scale_p (projection (snd (drag_move startRotate event st))) = Fin zoom
       \<and> fst (drag_move startRotate event st) = event"
proof -
  have main: "rotate_p (projection (snd (drag_move startRotate event st)))
           = (Fin (r0 + ((ex - sx) / 2) * (100 / zoom)), Fin (r1 - ((ey - sy) / 2) * (100 / zoom)))"
    using assms by (simp add: drag_move_rotate js_sub_def)
  have hundred: "zoom = 100 \<Longrightarrow> r0 + ((ex - sx) / 2) * (100 / zoom) = r0 + (ex - sx) / 2
       \<and> r1 - ((ey - sy) / 2) * (100 / zoom) = r1 - (ey - sy) / 2"
    by simp
  have one: "zoom = 1 \<Longrightarrow> r0 + ((ex - sx) / 2) * (100 / zoom) = r0 + 50 * (ex - sx)
       \<and> r1 - ((ey - sy) / 2) * (100 / zoom) = r1 - 50 * (ey - sy)"
    by (simp add: field_simps)
  have rest: "scale_p (projection (snd (drag_move startRotate event st))) = Fin zoom
       \<and> fst (drag_move startRotate event st) = event"
    using assms by (simp add: drag_move_def Let_def getZoom_def)
  show ?thesis
    using hundred one rest by (simp add: main)
qed

theorem drag_rotation_delta_witness:
  "rotate_p (projection (snd (drag_move (Fin 100, Fin 100) (Fin 104, Fin 96) default_globe)))
     = (Fin (- 7.55), Fin (- 46.3667))
   \<and> getZoom default_globe = Fin 200"
  using drag_rotation_delta [of "(Fin 100, Fin 100)" 100 100 "(Fin 104, Fin 96)" 104 96 default_globe "- 8.55" "- 47.3667" 200]
  by (simp add: default_globe_def getZoom_def)

text \<open>
  The claim as stated fails: at zoom 1 a drag of \<open>(2, 2)\<close> pixels from rotation \<open>(0, 0)\<close> turns
  the globe to \<open>(100, -100)\<close>, not to \<open>(1, -1)\<close>.
\<close>

theorem drag_at_unit_zoom_counterexample:
  "getZoom unit_zoom = Fin 1
   \<and> rotate_p (projection unit_zoom) = (Fin 0, Fin 0)
   \<and> rotate_p (projection (snd (drag_move (Fin 0, Fin 0) (Fin 2, Fin 2) unit_zoom))) = (Fin 100, Fin (- 100))
   \<and> rotate_p (projection (snd (drag_move (Fin 0, Fin 0) (Fin 2, Fin 2) unit_zoom)))
       \<noteq> (Fin (0 + 2 / 2), Fin (0 - 2 / 2))"
  by (simp add: drag_move_rotate js_sub_def getZoom_def unit_zoom_def default_globe_def)

subsection \<open>C2: the scale that fits the locations\<close>

text \<open>
  Claim C2. For a non-empty list of locations, let \<open>c\<close> be the centroid the library computes
  from their coordinates. \<open>adjustProjectionToFitLocations\<close> turns the projection to \<open>-c\<close> and
  sets its scale to \<open>(0.8 * (min(width, height) / 2)) / sin(min(m, pi / 2))\<close>, where \<open>m\<close> is the
  maximum of the angular distances from \<open>c\<close> to the locations (\<open>max_angular_distance\<close>: the
  greatest of the distances that are numbers, 0 when none is). The clamped distance is at
  most \<open>pi / 2\<close>, and is \<open>pi / 2\<close> whenever \<open>m\<close> exceeds it. The scale is still this value
  after the zoom event that ends the function has been handled.
\<close>

theorem fit_scale_from_max_distance:
  assumes "locations st \<noteq> []" and "c = geoCentroid (map coordinates (locations st))"
  shows "\<exists>m. max_angular_distance
                (map (\<lambda>loc. geoDistance [fst c, snd c] (coordinates loc)) (locations st)) m
           \<and> js_le (Math_min m (Fin (pi / 2))) (Fin (pi / 2))
           \<and> (js_gt m (Fin (pi / 2)) \<longrightarrow> Math_min m (Fin (pi / 2)) = Fin (pi / 2))
           \<and> rotate_p (projection (adjustProjectionToFitLocations geoCentroid st))
               = (js_neg (fst c), js_neg (snd c))
           \<and> scale_p (projection (adjustProjectionToFitLocations geoCentroid st))
               = js_div (Fin (0.8 * (real (min (offsetWidth st) (offsetHeight st)) / 2)))
                        (Math_sin (Math_min m (Fin (pi / 2))))"
proof -
  let ?m = "raw_maxDistance [fst c, snd c] (map coordinates (locations st))"
  obtain r where r: "?m = Fin r" "0 \<le> r"
    using raw_maxDistance_props [of "[fst c, snd c]" "map coordinates (locations st)"] by blast
  have "max_angular_distance
          (map (\<lambda>loc. geoDistance [fst c, snd c] (coordinates loc)) (locations st)) ?m"
    using raw_maxDistance_max [of "[fst c, snd c]" "map coordinates (locations st)"]
    by (simp add: comp_def)
  moreover have "js_le (Math_min ?m (Fin (pi / 2))) (Fin (pi / 2))"
    by (simp add: r(1) Math_min_half_pi js_le_def)
  moreover have "js_gt ?m (Fin (pi / 2)) \<longrightarrow> Math_min ?m (Fin (pi / 2)) = Fin (pi / 2)"
    by (simp add: r(1) Math_min_half_pi js_gt_def)
  moreover have "rotate_p (projection (adjustProjectionToFitLocations geoCentroid st))
               = (js_neg (fst c), js_neg (snd c))"
    by (simp add: fit_result(1) [OF assms(1)] assms(2))
  moreover have "scale_p (projection (adjustProjectionToFitLocations geoCentroid st))
               = js_div (Fin (0.8 * (real (min (offsetWidth st) (offsetHeight st)) / 2)))
                        (Math_sin (Math_min ?m (Fin (pi / 2))))"
    by (simp add: fit_result(1) [OF assms(1)] assms(2) [symmetric] r(1) Math_min_half_pi
          requiredScale_Fin fit_radius_def)
  ultimately show ?thesis by blast
qed

theorem fit_scale_from_max_distance_witness:
  "locations antipodal_globe \<noteq> []
   \<and> map (\<lambda>loc. geoDistance [Fin 0, Fin 0] (coordinates loc)) (locations antipodal_globe)
       = [Fin 0, Fin 0, Fin pi]
   \<and> rotate_p (projection (adjustProjectionToFitLocations (\<lambda>features. (Fin 0, Fin 0)) antipodal_globe))
       = (Fin 0, Fin 0)
   \<and> scale_p (projection (adjustProjectionToFitLocations (\<lambda>features. (Fin 0, Fin 0)) antipodal_globe))
       = Fin 160"
proof -
  have ne: "locations antipodal_globe \<noteq> []"
    by (simp add: antipodal_globe_def)
  have ds: "map (\<lambda>loc. geoDistance [Fin 0, Fin 0] (coordinates loc)) (locations antipodal_globe)
       = [Fin 0, Fin 0, Fin pi]"
    by (simp add: antipodal_globe_def great_circle_same great_circle_half_turn)
  have size: "min (offsetWidth antipodal_globe) (offsetHeight antipodal_globe) = 400"
    by (simp add: antipodal_globe_def default_globe_def)
  obtain m where m: "max_angular_distance [Fin 0, Fin 0, Fin pi] m"
      "rotate_p (projection (adjustProjectionToFitLocations (\<lambda>features. (Fin 0, Fin 0)) antipodal_globe))
         = (Fin 0, Fin 0)"
      "scale_p (projection (adjustProjectionToFitLocations (\<lambda>features. (Fin 0, Fin 0)) antipodal_globe))
         = js_div (Fin 160) (Math_sin (Math_min m (Fin (pi / 2))))"
    using fit_scale_from_max_distance [OF ne, of "(Fin 0, Fin 0)" "\<lambda>features. (Fin 0, Fin 0)"]
    by (auto simp: ds size)
  have "m = Fin pi"
    using m(1) by (auto simp: max_angular_distance_def js_le_def)
  then show ?thesis
    using ne ds m(2,3) by (simp add: Math_min_def)
qed

subsection \<open>C4: the fit divides by zero when every location is at the centroid\<close>

text \<open>
  Claim C4, amended. For a non-empty list of locations with computed centroid \<open>c\<close>: when every
  location has exactly the coordinates of \<open>c\<close>, the maximum distance of the loop is 0, the scale
  is the quotient of \<open>0.8 * radius\<close> by \<open>sin 0\<close>, which is not finite, and in a viewport of
  positive size it is \<open>+Infinity\<close>, stored as the projection's scale and as both bounds of the
  zoom scale extent. The fit sets a finite scale only if some location differs from the
  computed centroid and is at a distance greater than 0 from it. A single location is such a
  case only when the library's centroid of it is the location itself, as it is for a
  location at \<open>(0, 0)\<close>.
\<close>

theorem fit_divides_by_zero:
  assumes "locations st \<noteq> []" and "c = geoCentroid (map coordinates (locations st))"
  shows "((\<forall>loc \<in> set (locations st). coordinates loc = [fst c, snd c]) \<longrightarrow>
            raw_maxDistance [fst c, snd c] (map coordinates (locations st)) = Fin 0
          \<and> scale_p (projection (adjustProjectionToFitLocations geoCentroid st))
              = js_div (Fin (0.8 * (real (min (offsetWidth st) (offsetHeight st)) / 2))) (Fin (sin 0))
          \<and> \<not> is_finite (scale_p (projection (adjustProjectionToFitLocations geoCentroid st)))
          \<and> (0 < min (offsetWidth st) (offsetHeight st) \<longrightarrow>
                scale_p (projection (adjustProjectionToFitLocations geoCentroid st)) = PInf
              \<and> scaleExtent (adjustProjectionToFitLocations geoCentroid st) = (PInf, PInf)))
       \<and> (is_finite (scale_p (projection (adjustProjectionToFitLocations geoCentroid st)))
            \<longrightarrow> (\<exists>loc \<in> set (locations st).
                   coordinates loc \<noteq> [fst c, snd c]
                 \<and> js_gt (geoDistance [fst c, snd c] (coordinates loc)) (Fin 0)))"
proof -
  have same: "\<not> js_gt (geoDistance [fst c, snd c] [fst c, snd c]) (Fin 0)"
    using geoDistance_same [of "fst c" "snd c"] by (auto simp: js_gt_def)
  have "is_finite (scale_p (projection (adjustProjectionToFitLocations geoCentroid st)))
          \<longrightarrow> (\<exists>loc \<in> set (locations st).
                   coordinates loc \<noteq> [fst c, snd c]
                 \<and> js_gt (geoDistance [fst c, snd c] (coordinates loc)) (Fin 0))"
  proof
    assume "is_finite (scale_p (projection (adjustProjectionToFitLocations geoCentroid st)))"
    then obtain loc where loc: "loc \<in> set (locations st)"
        "js_gt (geoDistance [fst c, snd c] (coordinates loc)) (Fin 0)"
      using fit_scale_at_centroid [OF assms(1), of c geoCentroid, OF assms(2)] by blast
    then have "coordinates loc \<noteq> [fst c, snd c]"
      using same by auto
    with loc show "\<exists>loc \<in> set (locations st).
                   coordinates loc \<noteq> [fst c, snd c]
                 \<and> js_gt (geoDistance [fst c, snd c] (coordinates loc)) (Fin 0)"
      by blast
  qed
  then show ?thesis
    using fit_scale_at_centroid [OF assms(1), of c geoCentroid, OF assms(2)] by blast
qed

theorem fit_divides_by_zero_witness:
  "locations origin_globe \<noteq> []
   \<and> scale_p (projection (adjustProjectionToFitLocations (\<lambda>features. (Fin 0, Fin 0)) origin_globe)) = PInf
   \<and> scaleExtent (adjustProjectionToFitLocations (\<lambda>features. (Fin 0, Fin 0)) origin_globe) = (PInf, PInf)
   \<and> is_finite (scale_p (projection (adjustProjectionToFitLocations (\<lambda>features. (Fin 0, Fin 0)) pair_globe)))
   \<and> (\<exists>loc \<in> set (locations pair_globe).
         coordinates loc \<noteq> [Fin 0, Fin 0]
       \<and> js_gt (geoDistance [Fin 0, Fin 0] (coordinates loc)) (Fin 0))"
proof -
  have ne: "locations origin_globe \<noteq> []" "locations pair_globe \<noteq> []"
    by (simp_all add: origin_globe_def pair_globe_def)
  have a: "\<forall>loc \<in> set (locations origin_globe). coordinates loc = [Fin 0, Fin 0]"
    by (simp add: origin_globe_def)
  have b: "0 < min (offsetWidth origin_globe) (offsetHeight origin_globe)"
    by (simp add: origin_globe_def default_globe_def)
  have 1: "scale_p (projection (adjustProjectionToFitLocations (\<lambda>features. (Fin 0, Fin 0)) origin_globe)) = PInf
      \<and> scaleExtent (adjustProjectionToFitLocations (\<lambda>features. (Fin 0, Fin 0)) origin_globe) = (PInf, PInf)"
    using fit_divides_by_zero [OF ne(1), of "(Fin 0, Fin 0)" "\<lambda>features. (Fin 0, Fin 0)"] a b
    by (simp add: js_inf_def)
  have d: "great_circle 0 0 10 0 = 10 * radians"
    using great_circle_equator [of 10 0] pi_gt_zero by (simp add: radians_def)
  have c: "\<exists>loc \<in> set (locations pair_globe).
             js_gt (geoDistance [Fin 0, Fin 0] (coordinates loc)) (Fin 0)"
    by (simp add: pair_globe_def d js_gt_def radians_def)
  have 2: "is_finite (scale_p (projection (adjustProjectionToFitLocations (\<lambda>features. (Fin 0, Fin 0)) pair_globe)))"
    using fit_scale_at_centroid [OF ne(2), of "(Fin 0, Fin 0)" "\<lambda>features. (Fin 0, Fin 0)"] c
    by simp
  have 3: "\<exists>loc \<in> set (locations pair_globe).
         coordinates loc \<noteq> [Fin 0, Fin 0]
       \<and> js_gt (geoDistance [Fin 0, Fin 0] (coordinates loc)) (Fin 0)"
    using fit_divides_by_zero [OF ne(2), of "(Fin 0, Fin 0)" "\<lambda>features. (Fin 0, Fin 0)"] 2
    by simp
  show ?thesis using ne 1 2 3 by simp
qed

text \<open>
  The claim as stated fails at its own example, a single location. For Zurich alone the
  library's centroid is not the location: the distance between them is positive, the maximum
  distance of the loop is not 0 and the scale that the fit stores is finite.
\<close>

theorem single_location_finite_scale_counterexample:
  "locations single_globe = [\<lparr>name = ''Zurich'', coordinates = [Fin 8.55, Fin 47.3667]\<rparr>]
   \<and> zurich_geoCentroid (map coordinates (locations single_globe)) = (Fin 8.55, Fin 47.366699999999994)
   \<and> raw_maxDistance [Fin 8.55, Fin 47.366699999999994] (map coordinates (locations single_globe))
       \<noteq> Fin 0
   \<and> is_finite (scale_p (projection (adjustProjectionToFitLocations zurich_geoCentroid single_globe)))
   \<and> scale_p (projection (adjustProjectionToFitLocations zurich_geoCentroid single_globe)) \<noteq> PInf"
proof -
  have l: "locations single_globe = [\<lparr>name = ''Zurich'', coordinates = [Fin 8.55, Fin 47.3667]\<rparr>]"
    by (simp add: single_globe_def)
  have z: "zurich_geoCentroid (map coordinates (locations single_globe)) = (Fin 8.55, Fin 47.366699999999994)"
    by (simp add: zurich_geoCentroid_def zurich_centroid_def)
  have d: "great_circle 8.55 47.366699999999994 8.55 47.3667 = (47.3667 - 47.366699999999994) * radians"
    using pi_gt_zero by (intro great_circle_same_longitude) (simp_all add: radians_def)
  have pos: "0 < great_circle 8.55 47.366699999999994 8.55 47.3667"
    unfolding d by (simp add: radians_def)
  have m: "raw_maxDistance [Fin 8.55, Fin 47.366699999999994] (map coordinates (locations single_globe))
       \<noteq> Fin 0"
    using pos by (simp add: l raw_maxDistance_def max_step_def Let_def js_gt_def)
  have ne: "locations single_globe \<noteq> []"
    by (simp add: l)
  have f: "is_finite (scale_p (projection (adjustProjectionToFitLocations zurich_geoCentroid single_globe)))"
    using fit_scale_at_centroid [OF ne, of "(Fin 8.55, Fin 47.366699999999994)" zurich_geoCentroid,
            OF z [symmetric], THEN conjunct2] pos
    by (simp add: l js_gt_def)
  then have "scale_p (projection (adjustProjectionToFitLocations zurich_geoCentroid single_globe)) \<noteq> PInf"
    by auto
  with l z m f show ?thesis by simp
qed

subsection \<open>C3: visibility at the horizon\<close>

text \<open>
  Claim C3 says that a point is drawn exactly when its angular distance from the view centre
  is less than 90 degrees and that an arc is drawn exactly when both its end points pass this
  same test. \<open>highlightPoints\<close> draws a point when \<open>angle < pi / 2\<close>, while \<open>drawArcs\<close> hides
  an arc when an angle is \<open>> pi / 2\<close>, so the two disagree at exactly 90 degrees. In
  \<open>horizon_globe\<close> the view centre is \<open>(0, 0)\<close> and the location East lies at \<open>(90, 0)\<close>, at
  distance \<open>pi / 2\<close>: its point is not drawn, only that of Centre is, yet the path of the arc
  from East to Centre is drawn.
\<close>

theorem arc_drawn_at_the_horizon:
  "geoDistance [Fin 90, Fin 0] (view_center horizon_globe) = Fin (pi / 2)
   \<and> geoDistance [Fin 0, Fin 0] (view_center horizon_globe) = Fin 0
   \<and> svg_points (highlightPoints horizon_globe) = [\<lparr>name = ''Centre'', coordinates = [Fin 0, Fin 0]\<rparr>]
   \<and> svg_arcs (drawArcs horizon_globe) =
       [(\<lparr>source = Some ''East'', target = Some ''Centre'', label = Some ''East-Centre'', color = None\<rparr>,
         True)]"
proof -
  have v: "view_center horizon_globe = [Fin 0, Fin 0]"
    by (simp add: view_center_def horizon_globe_def)
  have d1: "geoDistance [Fin 90, Fin 0] [Fin 0, Fin 0] = Fin (pi / 2)"
    by (simp add: great_circle_quarter_turn)
  have d2: "geoDistance [Fin 0, Fin 0] [Fin 0, Fin 0] = Fin 0"
    by (simp add: great_circle_same)
  have l: "locations horizon_globe =
      [\<lparr>name = ''Centre'', coordinates = [Fin 0, Fin 0]\<rparr>,
       \<lparr>name = ''East'', coordinates = [Fin 90, Fin 0]\<rparr>]"
    by (simp add: horizon_globe_def)
  have e: "\<not> point_shown horizon_globe \<lparr>name = ''East'', coordinates = [Fin 90, Fin 0]\<rparr>"
    by (simp add: point_shown_def v great_circle_quarter_turn)
  have c: "point_shown horizon_globe \<lparr>name = ''Centre'', coordinates = [Fin 0, Fin 0]\<rparr>"
    by (simp add: point_shown_def v great_circle_same)
  have p: "svg_points (highlightPoints horizon_globe) = [\<lparr>name = ''Centre'', coordinates = [Fin 0, Fin 0]\<rparr>]"
    by (simp add: svg_points_highlightPoints l e c)
  have r: "arcs horizon_globe =
      [\<lparr>source = Some ''East'', target = Some ''Centre'', label = Some ''East-Centre'', color = None\<rparr>]"
    by (simp add: horizon_globe_def)
  have s: "arc_shown horizon_globe
      \<lparr>source = Some ''East'', target = Some ''Centre'', label = Some ''East-Centre'', color = None\<rparr>"
    by (simp add: arc_shown_def l find_location_def v great_circle_quarter_turn great_circle_same js_gt_def
          path_data_def finite_point_def)
  have a: "svg_arcs (drawArcs horizon_globe) =
       [(\<lparr>source = Some ''East'', target = Some ''Centre'', label = Some ''East-Centre'', color = None\<rparr>,
         True)]"
    by (simp add: svg_arcs_drawArcs r s)
  show ?thesis using p a d1 d2 by (simp add: v)
qed

end
